theory Spec2Isabelle
  imports Complex_Main
begin

section \<open>Data model\<close>

text \<open>
  The program (\<^verbatim>\<open>numba-cuda/demo.py\<close>) works on NumPy arrays of 64-bit floats. The model
  uses exact real arithmetic in place of floating point. A vector is the list of its
  elements. A matrix carries its shape and its elements in column-major (Fortran) order,
  as the kernels' signatures \<^verbatim>\<open>Array(float64, 2, "F")\<close> and \<^verbatim>\<open>order='F'\<close> in the
  main program fix it.
\<close>

type_synonym vec = "real list"

record matrix =
  nrows :: nat
  ncols :: nat
  elems :: "real list"

definition mat_at :: "matrix \<Rightarrow> nat \<Rightarrow> nat \<Rightarrow> real" where
  \<comment> \<open>\<^verbatim>\<open>A[i, j]\<close> of a column-major array\<close>
  "mat_at A i j = elems A ! (i + j * nrows A)"

definition BLOCK_SIZE :: nat where
  "BLOCK_SIZE = 128"

section \<open>Timer\<close>

text \<open>
  \<^verbatim>\<open>class time_region\<close>: \<^verbatim>\<open>__init__\<close> stores the offset, \<^verbatim>\<open>__enter__\<close> and
  \<^verbatim>\<open>__exit__\<close> store a reading of the clock each, \<^verbatim>\<open>elapsed_time\<close> combines the
  three. The clock readings are arguments of the model. An attribute that has not
  been set yet is \<open>None\<close>; reading it raises \<^verbatim>\<open>AttributeError\<close>, the \<open>None\<close> result of
  \<open>elapsed_time\<close>.
\<close>

record time_region =
  time_off :: real
  t_start :: "real option"
  t_end :: "real option"

definition time_region_init :: "real \<Rightarrow> time_region" where
  "time_region_init time_offset = \<lparr>time_off = time_offset, t_start = None, t_end = None\<rparr>"

definition time_region_enter :: "real \<Rightarrow> time_region \<Rightarrow> time_region" where
  "time_region_enter now r = r\<lparr>t_start := Some now\<rparr>"

definition time_region_exit :: "real \<Rightarrow> time_region \<Rightarrow> time_region" where
  "time_region_exit now r = r\<lparr>t_end := Some now\<rparr>"

definition elapsed_time :: "time_region \<Rightarrow> real option" where
  "elapsed_time r =
     (case t_end r of
        None \<Rightarrow> None
      | Some e \<Rightarrow> (case t_start r of None \<Rightarrow> None | Some s \<Rightarrow> Some (time_off r + (e - s))))"

definition timed_region :: "real \<Rightarrow> real \<Rightarrow> real \<Rightarrow> time_region" where
  \<comment> \<open>\<^verbatim>\<open>with time_region(time_offset) as t: ...\<close>, entered at \<open>t_in\<close> and left at \<open>t_out\<close>\<close>
  "timed_region time_offset t_in t_out =
     time_region_exit t_out (time_region_enter t_in (time_region_init time_offset))"

fun chained_regions :: "real \<Rightarrow> (real \<times> real) list \<Rightarrow> real option" where
  \<comment> \<open>regions timed one after the other, each constructed with the elapsed time of the
      one before as its offset, as \<^verbatim>\<open>t_xfer\<close> is in \<^verbatim>\<open>gemv_v3\<close>\<close>
  "chained_regions time_offset [] = Some time_offset"
| "chained_regions time_offset ((t_in, t_out) # rs) =
     (case elapsed_time (timed_region time_offset t_in t_out) of
        None \<Rightarrow> None
      | Some t \<Rightarrow> chained_regions t rs)"

section \<open>Validator\<close>

text \<open>
  \<^verbatim>\<open>validate(found, expected)\<close> is \<^verbatim>\<open>np.allclose(found, expected)\<close> with NumPy's default
  tolerances \<^verbatim>\<open>rtol=1e-05\<close>, \<^verbatim>\<open>atol=1e-08\<close>: the float64 numbers nearest to these
  decimals. NumPy broadcasts the two shapes (one-dimensional arrays of lengths \<open>n\<close> and
  \<open>m\<close> are compatible when \<open>n = m\<close> or one of them is \<open>1\<close>; otherwise \<^verbatim>\<open>ValueError\<close> is
  raised, \<open>None\<close>) and then wants every pair of elements to satisfy
  \<^verbatim>\<open>(absolute(a - b) <= atol + rtol * absolute(b)) & isfinite(b) | (a == b)\<close>.

  An element of a float64 array is a finite number, an infinity or a NaN. On finite
  numbers the arithmetic is exact here (no rounding); on the other values it follows
  IEEE 754: a NaN makes every result a NaN and every comparison false, and so do
  \<open>\<infinity> - \<infinity>\<close> and \<open>0 * \<infinity>\<close>.
\<close>

datatype float64 = Fin real | PInf | NInf | NaN

fun f_sub :: "float64 \<Rightarrow> float64 \<Rightarrow> float64" where
  "f_sub NaN y = NaN"
| "f_sub x NaN = NaN"
| "f_sub (Fin a) (Fin b) = Fin (a - b)"
| "f_sub (Fin a) PInf = NInf"
| "f_sub (Fin a) NInf = PInf"
| "f_sub PInf PInf = NaN"
| "f_sub PInf y = PInf"
| "f_sub NInf NInf = NaN"
| "f_sub NInf y = NInf"

fun f_add :: "float64 \<Rightarrow> float64 \<Rightarrow> float64" where
  "f_add NaN y = NaN"
| "f_add x NaN = NaN"
| "f_add (Fin a) (Fin b) = Fin (a + b)"
| "f_add PInf NInf = NaN"
| "f_add NInf PInf = NaN"
| "f_add PInf y = PInf"
| "f_add x PInf = PInf"
| "f_add NInf y = NInf"
| "f_add x NInf = NInf"

fun f_mul :: "float64 \<Rightarrow> float64 \<Rightarrow> float64" where
  "f_mul NaN y = NaN"
| "f_mul x NaN = NaN"
| "f_mul (Fin a) (Fin b) = Fin (a * b)"
| "f_mul (Fin a) PInf = (if a = 0 then NaN else if 0 < a then PInf else NInf)"
| "f_mul (Fin a) NInf = (if a = 0 then NaN else if 0 < a then NInf else PInf)"
| "f_mul PInf (Fin b) = (if b = 0 then NaN else if 0 < b then PInf else NInf)"
| "f_mul NInf (Fin b) = (if b = 0 then NaN else if 0 < b then NInf else PInf)"
| "f_mul PInf PInf = PInf"
| "f_mul PInf NInf = NInf"
| "f_mul NInf PInf = NInf"
| "f_mul NInf NInf = PInf"

fun f_abs :: "float64 \<Rightarrow> float64" where
  "f_abs (Fin a) = Fin \<bar>a\<bar>"
| "f_abs PInf = PInf"
| "f_abs NInf = PInf"
| "f_abs NaN = NaN"

fun f_le :: "float64 \<Rightarrow> float64 \<Rightarrow> bool" where
  "f_le NaN y = False"
| "f_le x NaN = False"
| "f_le (Fin a) (Fin b) = (a \<le> b)"
| "f_le NInf y = True"
| "f_le x PInf = True"
| "f_le x y = False"

definition f_eq :: "float64 \<Rightarrow> float64 \<Rightarrow> bool" where
  \<comment> \<open>\<^verbatim>\<open>a == b\<close>: a NaN is equal to nothing\<close>
  "f_eq x y \<longleftrightarrow> x \<noteq> NaN \<and> x = y"

fun isfinite :: "float64 \<Rightarrow> bool" where
  "isfinite (Fin a) = True"
| "isfinite x = False"

definition rtol_default :: real where
  \<comment> \<open>the float64 nearest to \<open>1e-05\<close>; its denominator is \<open>2 ^ 69\<close>\<close>
  "rtol_default = 5902958103587057 / 590295810358705651712"

definition atol_default :: real where
  \<comment> \<open>the float64 nearest to \<open>1e-08\<close>; its denominator is \<open>2 ^ 78\<close>\<close>
  "atol_default = 3022314549036573 / 302231454903657293676544"

definition within_tol :: "float64 \<Rightarrow> float64 \<Rightarrow> float64 \<Rightarrow> float64 \<Rightarrow> bool" where
  \<comment> \<open>\<^verbatim>\<open>absolute(a - b) <= atol + rtol * absolute(b)\<close>\<close>
  "within_tol a b rtol atol \<longleftrightarrow> f_le (f_abs (f_sub a b)) (f_add atol (f_mul rtol (f_abs b)))"

definition isclose :: "float64 \<Rightarrow> float64 \<Rightarrow> float64 \<Rightarrow> float64 \<Rightarrow> bool" where
  "isclose a b rtol atol \<longleftrightarrow> within_tol a b rtol atol \<and> isfinite b \<or> f_eq a b"

definition broadcast :: "'a list \<Rightarrow> 'b list \<Rightarrow> ('a \<times> 'b) list option" where
  "broadcast a b =
     (if length a = length b then Some (zip a b)
      else if length a = 1 then Some (map (\<lambda>v. (hd a, v)) b)
      else if length b = 1 then Some (map (\<lambda>u. (u, hd b)) a)
      else None)"

fun all_pairs :: "('a \<times> 'b \<Rightarrow> bool) \<Rightarrow> ('a \<times> 'b) list \<Rightarrow> bool" where
  "all_pairs P [] = True"
| "all_pairs P (p # ps) = (if P p then all_pairs P ps else False)"

definition allclose :: "float64 list \<Rightarrow> float64 list \<Rightarrow> float64 \<Rightarrow> float64 \<Rightarrow> bool option" where
  "allclose a b rtol atol =
     map_option (all_pairs (\<lambda>(u, v). isclose u v rtol atol)) (broadcast a b)"

definition validate :: "float64 list \<Rightarrow> float64 list \<Rightarrow> bool option" where
  "validate found expected =
     allclose found expected (Fin rtol_default) (Fin atol_default)"

section \<open>Launch configuration\<close>

definition num_blocks :: "nat \<Rightarrow> nat" where
  \<comment> \<open>\<^verbatim>\<open>num_blocks = N // BLOCK_SIZE; if N % BLOCK_SIZE: num_blocks += 1\<close>\<close>
  "num_blocks N =
     (let nb = N div BLOCK_SIZE in if N mod BLOCK_SIZE \<noteq> 0 then nb + 1 else nb)"

definition grid :: "nat \<Rightarrow> nat \<Rightarrow> nat \<Rightarrow> nat" where
  \<comment> \<open>\<^verbatim>\<open>cuda.grid(1)\<close> of the thread \<open>tid\<close> of block \<open>blk\<close>:
      \<^verbatim>\<open>blockIdx.x * blockDim.x + threadIdx.x\<close>\<close>
  "grid bsize blk tid = blk * bsize + tid"

section \<open>Execution environment\<close>

text \<open>
  What the program does not fix is a parameter of the model:
  \<^item> \<open>sched n\<close>: the order in which \<open>n\<close> parallel workers numbered \<open>0..n-1\<close> run
    (the iterations of a \<^verbatim>\<open>numba.prange\<close>, the blocks of a grid, the threads of a block
    between two barriers);
  \<^item> \<open>uninit k\<close>: what cell \<open>k\<close> of an uninitialised buffer holds (\<^verbatim>\<open>np.empty\<close>,
    \<^verbatim>\<open>cuda.shared.array\<close>);
  \<^item> \<open>rand k\<close>: the \<open>k\<close>-th number drawn from \<^verbatim>\<open>np.random.rand\<close>;
  \<^item> \<open>clock k\<close>: the \<open>k\<close>-th reading of \<^verbatim>\<open>time.time()\<close>;
  \<^item> \<open>builtin_int s\<close>: Python's \<^verbatim>\<open>int(s)\<close> for a string, \<open>None\<close> when it raises
    \<^verbatim>\<open>ValueError\<close>;
  \<^item> \<open>free_cells\<close>: how many float64 cells the host can still allocate;
  \<^item> \<open>runtime_fault\<close>: whether the runtime raises during the kernel call or in
    \<^verbatim>\<open>cuda.profile_stop()\<close> (no device, a device allocation, a transfer or a launch that
    fails, the host out of memory).
\<close>

record env =
  sched :: "nat \<Rightarrow> nat list"
  uninit :: "nat \<Rightarrow> real"
  rand :: "nat \<Rightarrow> real"
  clock :: "nat \<Rightarrow> real"
  builtin_int :: "string \<Rightarrow> int option"
  free_cells :: nat
  runtime_fault :: bool

definition is_order :: "nat \<Rightarrow> nat list \<Rightarrow> bool" where
  \<comment> \<open>every worker \<open>0..n-1\<close> runs, and runs once\<close>
  "is_order n ws \<longleftrightarrow> distinct ws \<and> set ws = {0..<n}"

definition wf_env :: "env \<Rightarrow> bool" where
  "wf_env e \<longleftrightarrow> (\<forall>n. is_order n (sched e n))"

section \<open>Device kernels\<close>

definition row_dot :: "matrix \<Rightarrow> vec \<Rightarrow> nat \<Rightarrow> real" where
  \<comment> \<open>\<^verbatim>\<open>prod = 0.0; for j in range(M): prod += A[i, j]*x[j]\<close>\<close>
  "row_dot A x i = fold (\<lambda>j prod. prod + mat_at A i j * x ! j) [0..<ncols A] 0"

definition gemv_cuda :: "nat \<Rightarrow> real \<Rightarrow> matrix \<Rightarrow> vec \<Rightarrow> real \<Rightarrow> vec \<Rightarrow> vec" where
  \<comment> \<open>the thread of \<^verbatim>\<open>_gemv_cuda\<close> whose \<^verbatim>\<open>cuda.grid(1)\<close> is \<open>i\<close>, as a transformer of the
      device array \<open>y\<close>\<close>
  "gemv_cuda i alpha A x beta y =
     (if i \<ge> nrows A then y
      else y[i := alpha * row_dot A x i + beta * y ! i])"

definition gemv_cuda_launch ::
  "(nat \<times> nat) list \<Rightarrow> nat \<Rightarrow> real \<Rightarrow> matrix \<Rightarrow> vec \<Rightarrow> real \<Rightarrow> vec \<Rightarrow> vec" where
  \<comment> \<open>\<^verbatim>\<open>_gemv_cuda[nb, bsize](alpha, A, x, beta, y)\<close>: the threads \<open>(blk, tid)\<close> run in the
      order \<open>threads\<close>; no thread waits for another\<close>
  "gemv_cuda_launch threads bsize alpha A x beta y =
     fold (\<lambda>(blk, tid) y. gemv_cuda (grid bsize blk tid) alpha A x beta y) threads y"

definition launch_threads :: "nat \<Rightarrow> nat \<Rightarrow> (nat \<times> nat) list" where
  \<comment> \<open>the threads of a launch \<^verbatim>\<open>[nb, bsize]\<close>\<close>
  "launch_threads nb bsize = List.product [0..<nb] [0..<bsize]"

definition is_launch_order :: "nat \<Rightarrow> nat \<Rightarrow> (nat \<times> nat) list \<Rightarrow> bool" where
  "is_launch_order nb bsize threads \<longleftrightarrow>
     distinct threads \<and> set threads = set (launch_threads nb bsize)"

text \<open>
  \<^verbatim>\<open>_gemv_cuda_shared\<close>. The threads of a block share the array \<open>lx\<close> of \<open>BLOCK_SIZE\<close>
  cells, which starts uninitialised, and meet at the two \<^verbatim>\<open>cuda.syncthreads()\<close> of
  every tile. A thread with \<open>i \<ge> N\<close> returns before the loop and takes part in
  nothing. Between two barriers the surviving threads of the block run in the order
  given; the state of a block is the shared array and the \<open>prod\<close> of each thread.
\<close>

record block_state =
  lx :: "real list"
  prods :: "real list"

definition survives :: "matrix \<Rightarrow> nat \<Rightarrow> nat \<Rightarrow> nat \<Rightarrow> bool" where
  \<comment> \<open>the guard \<^verbatim>\<open>if i >= N: return\<close>\<close>
  "survives A bsize blk tid \<longleftrightarrow> \<not> (grid bsize blk tid \<ge> nrows A)"

definition load_tile :: "vec \<Rightarrow> nat \<Rightarrow> nat \<Rightarrow> nat \<Rightarrow> real list \<Rightarrow> real list" where
  \<comment> \<open>\<^verbatim>\<open>lx[tid] = x[tid + b*bsize]\<close>\<close>
  "load_tile x bsize b tid l = l[tid := x ! (tid + b * bsize)]"

definition accumulate_tile :: "matrix \<Rightarrow> nat \<Rightarrow> nat \<Rightarrow> nat \<Rightarrow> real list \<Rightarrow> real \<Rightarrow> real" where
  \<comment> \<open>\<^verbatim>\<open>for j in range(BLOCK_SIZE): prod += A[i, j + b*bsize]*lx[j]\<close>\<close>
  "accumulate_tile A bsize b i l prod0 =
     fold (\<lambda>j prod. prod + mat_at A i (j + b * bsize) * l ! j) [0..<BLOCK_SIZE] prod0"

definition tile_step ::
  "nat list \<Rightarrow> matrix \<Rightarrow> vec \<Rightarrow> nat \<Rightarrow> nat \<Rightarrow> nat \<Rightarrow> block_state \<Rightarrow> block_state" where
  \<comment> \<open>one iteration of \<^verbatim>\<open>for b in range(num_blocks)\<close> by the threads \<open>alive\<close> of block
      \<open>blk\<close>: all loads, barrier, all accumulations, barrier\<close>
  "tile_step alive A x bsize blk b s =
     (let lx1 = fold (load_tile x bsize b) alive (lx s);
          ps1 = fold (\<lambda>tid ps. ps[tid := accumulate_tile A bsize b (grid bsize blk tid) lx1
                                            (ps ! tid)]) alive (prods s)
      in \<lparr>lx = lx1, prods = ps1\<rparr>)"

definition gemv_cuda_shared_block ::
  "nat list \<Rightarrow> real list \<Rightarrow> nat \<Rightarrow> nat \<Rightarrow> real \<Rightarrow> matrix \<Rightarrow> vec \<Rightarrow> real \<Rightarrow> vec \<Rightarrow> vec" where
  \<comment> \<open>block \<open>blk\<close> of \<^verbatim>\<open>_gemv_cuda_shared\<close>; \<open>lx0\<close> is what the shared array holds when
      the block starts\<close>
  "gemv_cuda_shared_block threads lx0 bsize blk alpha A x beta y =
     (let alive = filter (survives A bsize blk) threads;
          s0 = \<lparr>lx = lx0, prods = replicate bsize 0\<rparr>;
          s = fold (tile_step alive A x bsize blk) [0..<ncols A div bsize] s0
      in fold (\<lambda>tid y. y[grid bsize blk tid :=
                 alpha * prods s ! tid + beta * y ! (grid bsize blk tid)]) alive y)"

definition gemv_cuda_shared_launch ::
  "nat list \<Rightarrow> (nat \<Rightarrow> nat list) \<Rightarrow> (nat \<Rightarrow> real list) \<Rightarrow> nat
     \<Rightarrow> real \<Rightarrow> matrix \<Rightarrow> vec \<Rightarrow> real \<Rightarrow> vec \<Rightarrow> vec" where
  \<comment> \<open>\<^verbatim>\<open>_gemv_cuda_shared[nb, bsize](alpha, A, x, beta, y)\<close>: the blocks run in the order
      \<open>blocks\<close>, the threads of block \<open>blk\<close> in the order \<open>threads blk\<close>, and the shared
      array of block \<open>blk\<close> starts as \<open>lx0 blk\<close>\<close>
  "gemv_cuda_shared_launch blocks threads lx0 bsize alpha A x beta y =
     fold (\<lambda>blk y. gemv_cuda_shared_block (threads blk) (lx0 blk) bsize blk alpha A x beta y)
       blocks y"

definition staged :: "matrix \<Rightarrow> vec \<Rightarrow> real list \<Rightarrow> nat \<Rightarrow> nat \<Rightarrow> nat \<Rightarrow> real" where
  \<comment> \<open>what cell \<open>j\<close> of the shared array holds between the two barriers of tile \<open>b\<close> in
      a block \<open>blk\<close> of \<open>BLOCK_SIZE\<close> threads: thread \<open>j\<close> has loaded it if it survived
      the guard, otherwise the cell is as the block found it\<close>
  "staged A x lx0 blk b j =
     (if survives A BLOCK_SIZE blk j then x ! (j + b * BLOCK_SIZE) else lx0 ! j)"

definition tiled_row :: "real \<Rightarrow> matrix \<Rightarrow> vec \<Rightarrow> real \<Rightarrow> vec \<Rightarrow> real list \<Rightarrow> nat \<Rightarrow> real" where
  \<comment> \<open>the value of row \<open>i\<close> in terms of the staged cells, tile by tile\<close>
  "tiled_row alpha A x beta y lx0 i =
     alpha * (\<Sum>b<ncols A div BLOCK_SIZE. \<Sum>j<BLOCK_SIZE.
                mat_at A i (j + b * BLOCK_SIZE) * staged A x lx0 (i div BLOCK_SIZE) b j)
       + beta * y ! i"

definition gemv_ref_row :: "real \<Rightarrow> matrix \<Rightarrow> vec \<Rightarrow> real \<Rightarrow> vec \<Rightarrow> nat \<Rightarrow> nat \<Rightarrow> real" where
  \<comment> \<open>the specification's value of row \<open>i\<close>, with the reduction cut after its first \<open>n\<close>
      terms: \<open>alpha * (sum over j < n of A[i,j]*x[j]) + beta*y[i]\<close>\<close>
  "gemv_ref_row alpha A x beta y i n = alpha * (\<Sum>j<n. mat_at A i j * x ! j) + beta * y ! i"

definition gemv_ref :: "real \<Rightarrow> matrix \<Rightarrow> vec \<Rightarrow> real \<Rightarrow> vec \<Rightarrow> vec" where
  \<comment> \<open>the specification's whole result: every row, the reduction over all the columns\<close>
  "gemv_ref alpha A x beta y =
     map (\<lambda>i. gemv_ref_row alpha A x beta y i (ncols A)) [0..<nrows A]"

section \<open>Host functions\<close>

text \<open>
  Python passes arrays by reference, so the host functions work on a memory: the host
  heap and the device heap, each a list of arrays, an array being referred to by its
  position. A new array is added at the end. A reference that does not hold an array of
  the expected kind makes the call raise (\<open>None\<close>). The memory also keeps the log of the
  kernel launches, each with its number of blocks and its block size.
\<close>

datatype ndarray = Vec vec | Mat matrix

type_synonym addr = nat

record memory =
  host :: "ndarray list"
  device :: "ndarray list"
  launches :: "(nat \<times> nat) list"

definition get_vec :: "ndarray list \<Rightarrow> addr \<Rightarrow> vec option" where
  "get_vec h p =
     (if p < length h then (case h ! p of Vec v \<Rightarrow> Some v | Mat _ \<Rightarrow> None) else None)"

definition get_mat :: "ndarray list \<Rightarrow> addr \<Rightarrow> matrix option" where
  "get_mat h p =
     (if p < length h then (case h ! p of Mat A \<Rightarrow> Some A | Vec _ \<Rightarrow> None) else None)"

definition new_host :: "ndarray \<Rightarrow> memory \<Rightarrow> addr \<times> memory" where
  "new_host a m = (length (host m), m\<lparr>host := host m @ [a]\<rparr>)"

definition to_device :: "addr \<Rightarrow> memory \<Rightarrow> (addr \<times> memory) option" where
  \<comment> \<open>\<^verbatim>\<open>cuda.to_device(a)\<close>: a new device buffer holding a copy of the host array\<close>
  "to_device p m =
     (if p < length (host m)
      then Some (length (device m), m\<lparr>device := device m @ [host m ! p]\<rparr>)
      else None)"

definition copy_to_host :: "addr \<Rightarrow> memory \<Rightarrow> (addr \<times> memory) option" where
  \<comment> \<open>\<^verbatim>\<open>d.copy_to_host()\<close> without an argument: a new host array holding a copy of the
      device buffer\<close>
  "copy_to_host d m =
     (if d < length (device m) then Some (new_host (device m ! d) m) else None)"

definition np_empty :: "env \<Rightarrow> nat \<Rightarrow> vec" where
  "np_empty e n = map (uninit e) [0..<n]"

definition gemv_v1_rows ::
  "nat list \<Rightarrow> real \<Rightarrow> matrix \<Rightarrow> vec \<Rightarrow> real \<Rightarrow> vec \<Rightarrow> vec \<Rightarrow> vec" where
  \<comment> \<open>the outer \<^verbatim>\<open>for i in numba.prange(N)\<close>, its iterations taken in the order \<open>rows\<close>;
      the inner loop is the reduction \<open>row_dot\<close>\<close>
  "gemv_v1_rows rows alpha A x beta y y_ret =
     fold (\<lambda>i y_ret. y_ret[i := alpha * row_dot A x i + beta * y ! i]) rows y_ret"

definition gemv_v1 ::
  "env \<Rightarrow> real \<Rightarrow> addr \<Rightarrow> addr \<Rightarrow> real \<Rightarrow> addr \<Rightarrow> memory \<Rightarrow> (addr \<times> memory) option" where
  "gemv_v1 e alpha pA px beta py m =
     (case get_mat (host m) pA of None \<Rightarrow> None | Some A \<Rightarrow>
     (case get_vec (host m) px of None \<Rightarrow> None | Some x \<Rightarrow>
     (case get_vec (host m) py of None \<Rightarrow> None | Some y \<Rightarrow>
        (let N = nrows A;
             y_ret = np_empty e N
         in Some (new_host (Vec (gemv_v1_rows (sched e N) alpha A x beta y y_ret)) m)))))"

definition matvec :: "matrix \<Rightarrow> vec \<Rightarrow> vec option" where
  \<comment> \<open>\<^verbatim>\<open>A @ x\<close>; a shape mismatch raises\<close>
  "matvec A x =
     (if ncols A = length x
      then Some (map (\<lambda>i. \<Sum>j<ncols A. mat_at A i j * x ! j) [0..<nrows A])
      else None)"

definition gemv_expr :: "real \<Rightarrow> matrix \<Rightarrow> vec \<Rightarrow> real \<Rightarrow> vec \<Rightarrow> vec option" where
  \<comment> \<open>\<^verbatim>\<open>alpha*(A @ x) + beta*y\<close>\<close>
  "gemv_expr alpha A x beta y =
     (case matvec A x of
        None \<Rightarrow> None
      | Some Ax \<Rightarrow>
          map_option (map (\<lambda>(u, v). u + v))
            (broadcast (map (\<lambda>u. alpha * u) Ax) (map (\<lambda>v. beta * v) y)))"

definition gemv_v2 ::
  "env \<Rightarrow> real \<Rightarrow> addr \<Rightarrow> addr \<Rightarrow> real \<Rightarrow> addr \<Rightarrow> memory \<Rightarrow> (addr \<times> memory) option" where
  "gemv_v2 e alpha pA px beta py m =
     (case get_mat (host m) pA of None \<Rightarrow> None | Some A \<Rightarrow>
     (case get_vec (host m) px of None \<Rightarrow> None | Some x \<Rightarrow>
     (case get_vec (host m) py of None \<Rightarrow> None | Some y \<Rightarrow>
     (case gemv_expr alpha A x beta y of None \<Rightarrow> None | Some r \<Rightarrow>
        Some (new_host (Vec r) m)))))"

definition thread_order :: "env \<Rightarrow> nat \<Rightarrow> nat \<Rightarrow> (nat \<times> nat) list" where
  \<comment> \<open>the order of the \<open>nb * bsize\<close> threads of a launch, each as (block, thread in block)\<close>
  "thread_order e nb bsize = map (\<lambda>k. (k div bsize, k mod bsize)) (sched e (nb * bsize))"

definition run_gemv_cuda ::
  "env \<Rightarrow> nat \<Rightarrow> nat \<Rightarrow> real \<Rightarrow> addr \<Rightarrow> addr \<Rightarrow> real \<Rightarrow> addr \<Rightarrow> memory \<Rightarrow> memory option" where
  \<comment> \<open>\<^verbatim>\<open>_gemv_cuda[nb, bsize](alpha, d_A, d_x, beta, d_y)\<close> on device buffers; the kernel
      writes \<open>d_y\<close> in place, and the launch is logged. Its only call passes three
      distinct buffers.\<close>
  "run_gemv_cuda e nb bsize alpha d_A d_x beta d_y m =
     (case get_mat (device m) d_A of None \<Rightarrow> None | Some A \<Rightarrow>
     (case get_vec (device m) d_x of None \<Rightarrow> None | Some x \<Rightarrow>
     (case get_vec (device m) d_y of None \<Rightarrow> None | Some y \<Rightarrow>
        Some (m\<lparr>device := (device m)[d_y :=
                Vec (gemv_cuda_launch (thread_order e nb bsize) bsize alpha A x beta y)],
               launches := launches m @ [(nb, bsize)]\<rparr>))))"

definition gemv_v3 ::
  "env \<Rightarrow> real \<Rightarrow> addr \<Rightarrow> addr \<Rightarrow> real \<Rightarrow> addr \<Rightarrow> memory \<Rightarrow> (addr \<times> memory) option" where
  \<comment> \<open>the timing regions and the two printed timings are left out\<close>
  "gemv_v3 e alpha pA px beta py m =
     (case to_device pA m of None \<Rightarrow> None | Some (d_A, m1) \<Rightarrow>
     (case to_device px m1 of None \<Rightarrow> None | Some (d_x, m2) \<Rightarrow>
     (case to_device py m2 of None \<Rightarrow> None | Some (d_y, m3) \<Rightarrow>
     (case get_mat (host m3) pA of None \<Rightarrow> None | Some A \<Rightarrow>
        (let N = nrows A;
             nb = num_blocks N
         in (case run_gemv_cuda e nb BLOCK_SIZE alpha d_A d_x beta d_y m3 of
               None \<Rightarrow> None
             | Some m4 \<Rightarrow> copy_to_host d_y m4))))))"

section \<open>Main program\<close>

datatype event =
  Err_too_few_arguments
| Usage
| Err_dimension_not_integer
| Err_no_such_kernel string
| Available_versions "string list"
| Err_dimension_not_positive
| Elapsed_time real
| Err_not_validated
| Found vec
| Expected vec
| Traceback

record outcome =
  exit_code :: int
  printed :: "event list"

datatype global_obj =
  Kernel "env \<Rightarrow> real \<Rightarrow> addr \<Rightarrow> addr \<Rightarrow> real \<Rightarrow> addr \<Rightarrow> memory \<Rightarrow> (addr \<times> memory) option"
| Other

definition module_globals :: "(string \<times> global_obj) list" where
  \<comment> \<open>the names the module has bound when the main program looks the kernel up, in the
      order of their binding; none of the names Python adds itself starts with
      \<^verbatim>\<open>gemv_\<close>\<close>
  "module_globals =
     [(''math'', Other), (''numba'', Other), (''cuda'', Other), (''np'', Other),
      (''sys'', Other), (''time'', Other), (''print_usage'', Other),
      (''time_region'', Other), (''time_region_cuda'', Other),
      (''gemv_v1'', Kernel gemv_v1), (''gemv_v2'', Kernel gemv_v2),
      (''_gemv_cuda'', Other), (''BLOCK_SIZE'', Other), (''_gemv_cuda_shared'', Other),
      (''gemv_v3'', Kernel gemv_v3), (''_vecadd_cuda'', Other), (''vecadd'', Other),
      (''validate'', Other), (''N'', Other), (''version'', Other)]"

definition startswith :: "string \<Rightarrow> string \<Rightarrow> bool" where
  "startswith name p \<longleftrightarrow> take (length p) name = p"

definition available_versions :: "(string \<times> global_obj) list \<Rightarrow> string list" where
  \<comment> \<open>the loop over \<^verbatim>\<open>globals().keys()\<close>: of a name that starts with \<^verbatim>\<open>gemv_\<close>, what
      follows its first underscore\<close>
  "available_versions g = map (drop 5) (filter (\<lambda>name. startswith name ''gemv_'') (map fst g))"

definition call ::
  "global_obj \<Rightarrow> env \<Rightarrow> real \<Rightarrow> addr \<Rightarrow> addr \<Rightarrow> real \<Rightarrow> addr \<Rightarrow> memory
     \<Rightarrow> (addr \<times> memory) option" where
  "call k e alpha pA px beta py m =
     (case k of Kernel f \<Rightarrow> f e alpha pA px beta py m | Other \<Rightarrow> None)"

definition operands_fit :: "env \<Rightarrow> nat \<Rightarrow> bool" where
  \<comment> \<open>the allocations of the main program succeed: no array has more bytes than the
      largest signed 64-bit integer (NumPy raises \<^verbatim>\<open>ValueError\<close> otherwise), and the
      random matrix, its column-major copy, \<open>x\<close> and \<open>y_orig\<close> fit into the memory that is
      free (\<^verbatim>\<open>MemoryError\<close> otherwise)\<close>
  "operands_fit e N \<longleftrightarrow> N * N * 8 \<le> 2 ^ 63 - 1 \<and> 2 * (N * N) + 2 * N \<le> free_cells e"

definition initial_memory :: "env \<Rightarrow> nat \<Rightarrow> memory option" where
  \<comment> \<open>\<^verbatim>\<open>A = np.asarray(np.random.rand(N, N), order='F')\<close>, \<^verbatim>\<open>x = np.random.rand(N)\<close>,
      \<^verbatim>\<open>y_orig = np.ones(N)\<close>, at the host addresses 0, 1 and 2; \<open>None\<close> when an
      allocation raises\<close>
  "initial_memory e N =
     (if operands_fit e N
      then Some \<lparr>host = [Mat \<lparr>nrows = N, ncols = N,
                                elems = map (\<lambda>k. rand e ((k mod N) * N + k div N)) [0..<N * N]\<rparr>,
                          Vec (map (\<lambda>k. rand e (N * N + k)) [0..<N]),
                          Vec (replicate N 1)],
                  device = [], launches = []\<rparr>
      else None)"

definition found_of :: "global_obj \<Rightarrow> env \<Rightarrow> nat \<Rightarrow> (vec \<times> memory) option" where
  \<comment> \<open>the operands, then \<^verbatim>\<open>y = kernel(alpha, A, x, beta, y_orig)\<close> with \<^verbatim>\<open>alpha = 0.2\<close>,
      \<^verbatim>\<open>beta = 1\<close>, then \<^verbatim>\<open>cuda.profile_stop()\<close>; \<open>None\<close> when one of them raises\<close>
  "found_of kern e N =
     (case initial_memory e N of
        None \<Rightarrow> None
      | Some m0 \<Rightarrow>
          if runtime_fault e then None
          else (case call kern e (2 / 10) 0 1 1 2 m0 of
                  None \<Rightarrow> None
                | Some (y, m1) \<Rightarrow> map_option (\<lambda>v. (v, m1)) (get_vec (host m1) y)))"

definition expected_of :: "memory \<Rightarrow> vec option" where
  \<comment> \<open>\<^verbatim>\<open>y_ref = alpha*(A @ x) + beta*y_orig\<close>, from the arrays as they are after the call\<close>
  "expected_of m1 =
     (case get_mat (host m1) 0 of None \<Rightarrow> None | Some A \<Rightarrow>
     (case get_vec (host m1) 1 of None \<Rightarrow> None | Some x \<Rightarrow>
     (case get_vec (host m1) 2 of None \<Rightarrow> None | Some y_orig \<Rightarrow>
        gemv_expr (2 / 10) A x 1 y_orig)))"

definition main_with :: "(string \<times> global_obj) list \<Rightarrow> env \<Rightarrow> string list \<Rightarrow> outcome" where
  \<comment> \<open>the main program, for the module globals \<open>g\<close> and \<^verbatim>\<open>sys.argv = argv\<close>; an exception
      that nothing catches ends the program with exit code 1 after the traceback. Each
      event stands for one printed line. The arrays of the kernels hold finite numbers,
      which the validator receives as such.\<close>
  "main_with g e argv =
     (if length argv < 3
      then \<lparr>exit_code = 1, printed = [Err_too_few_arguments, Usage]\<rparr>
      else (case builtin_int e (argv ! 1) of
        None \<Rightarrow> \<lparr>exit_code = 1, printed = [Err_dimension_not_integer]\<rparr>
      | Some N \<Rightarrow>
         (case map_of g (''gemv_'' @ argv ! 2) of
            None \<Rightarrow> \<lparr>exit_code = 1,
                      printed = [Err_no_such_kernel (argv ! 2),
                                Available_versions (available_versions g)]\<rparr>
          | Some kern \<Rightarrow>
             if N \<le> 0
             then \<lparr>exit_code = 1, printed = [Err_dimension_not_positive]\<rparr>
             else
              (case found_of kern e (nat N) of
                 None \<Rightarrow> \<lparr>exit_code = 1, printed = [Traceback]\<rparr>
               | Some (y, m1) \<Rightarrow>
                  (case elapsed_time (timed_region 0 (clock e 0) (clock e 1)) of
                     None \<Rightarrow> \<lparr>exit_code = 1, printed = [Traceback]\<rparr>
                   | Some t \<Rightarrow>
                      (case expected_of m1 of
                         None \<Rightarrow> \<lparr>exit_code = 1, printed = [Elapsed_time t, Traceback]\<rparr>
                       | Some y_ref \<Rightarrow>
                          (case validate (map Fin y) (map Fin y_ref) of
                             None \<Rightarrow> \<lparr>exit_code = 1, printed = [Elapsed_time t, Traceback]\<rparr>
                           | Some True \<Rightarrow> \<lparr>exit_code = 0, printed = [Elapsed_time t]\<rparr>
                           | Some False \<Rightarrow>
                               \<lparr>exit_code = 1,
                                printed = [Elapsed_time t, Err_not_validated,
                                          Found y, Expected y_ref]\<rparr>)))))))"

definition main :: "env \<Rightarrow> string list \<Rightarrow> outcome" where
  "main e argv = main_with module_globals e argv"

section \<open>Example data\<close>

definition ones_matrix :: "nat \<Rightarrow> nat \<Rightarrow> matrix" where
  \<comment> \<open>the \<open>n\<close> by \<open>m\<close> matrix of ones\<close>
  "ones_matrix n m = \<lparr>nrows = n, ncols = m, elems = replicate (n * m) 1\<rparr>"

text \<open>
  An instance of \<^verbatim>\<open>int\<close> on strings of ASCII characters, for the example environments:
  whitespace around the number is dropped (space and the characters 9 to 13), one sign
  is allowed, then come decimal digits, with single underscores allowed between digits;
  more than 4300 digits are refused, as is anything else.
\<close>

definition is_space :: "char \<Rightarrow> bool" where
  "is_space c \<longleftrightarrow> c \<in> set [CHR '' '', CHR 0x09, CHR 0x0A, CHR 0x0B, CHR 0x0C, CHR 0x0D]"

definition is_digit :: "char \<Rightarrow> bool" where
  "is_digit c \<longleftrightarrow> c \<in> set ''0123456789''"

definition digit_val :: "char \<Rightarrow> nat" where
  "digit_val c = of_char c - (48::nat)"

fun parse_digits :: "string \<Rightarrow> nat \<Rightarrow> nat option" where
  "parse_digits [] acc = Some acc"
| "parse_digits (c # cs) acc =
     (if is_digit c then parse_digits cs (10 * acc + digit_val c)
      else if c = CHR ''_'' \<and> cs \<noteq> [] \<and> is_digit (hd cs) then parse_digits cs acc
      else None)"

definition ascii_nat :: "string \<Rightarrow> nat option" where
  "ascii_nat s =
     (if s \<noteq> [] \<and> is_digit (hd s) \<and> length (filter is_digit s) \<le> 4300
      then parse_digits s 0 else None)"

definition strip :: "string \<Rightarrow> string" where
  "strip s = rev (dropWhile is_space (rev (dropWhile is_space s)))"

definition ascii_int :: "string \<Rightarrow> int option" where
  "ascii_int s =
     (case strip s of
        [] \<Rightarrow> None
      | c # cs \<Rightarrow>
          if c = CHR ''-'' then map_option (\<lambda>n. - int n) (ascii_nat cs)
          else if c = CHR ''+'' then map_option int (ascii_nat cs)
          else map_option int (ascii_nat (c # cs)))"

text \<open>
  Two environments: one runs the workers in order over zeroed memory, the other in reverse
  order over memory full of sevens. Both draw only ones, read the clock as
  \<open>0, 1, 2, \<dots>\<close>, have room for \<open>2 ^ 20\<close> cells and a runtime that does not fail.
\<close>

definition env0 :: env where
  "env0 = \<lparr>sched = (\<lambda>n. [0..<n]), uninit = (\<lambda>k. 0), rand = (\<lambda>k. 1), clock = (\<lambda>k. real k),
           builtin_int = ascii_int, free_cells = 2 ^ 20, runtime_fault = False\<rparr>"

definition env1 :: env where
  "env1 = \<lparr>sched = (\<lambda>n. rev [0..<n]), uninit = (\<lambda>k. 7), rand = (\<lambda>k. 1), clock = (\<lambda>k. real k),
           builtin_int = ascii_int, free_cells = 2 ^ 20, runtime_fault = False\<rparr>"

definition ones_memory :: "nat \<Rightarrow> memory" where
  \<comment> \<open>a host heap holding an \<open>n\<close> by \<open>n\<close> matrix and two vectors of ones\<close>
  "ones_memory n =
     \<lparr>host = [Mat (ones_matrix n n), Vec (replicate n 1), Vec (replicate n 1)],
      device = [], launches = []\<rparr>"

text \<open>
  A kernel that is wrong on purpose: the library variant with \<open>1\<close> added to the first
  element of its result, and the module globals with this kernel added under the name
  \<^verbatim>\<open>gemv_perturbed\<close>.
\<close>

definition gemv_perturbed ::
  "env \<Rightarrow> real \<Rightarrow> addr \<Rightarrow> addr \<Rightarrow> real \<Rightarrow> addr \<Rightarrow> memory \<Rightarrow> (addr \<times> memory) option" where
  "gemv_perturbed e alpha pA px beta py m =
     (case gemv_v2 e alpha pA px beta py m of
        None \<Rightarrow> None
      | Some (y_ret, m') \<Rightarrow>
          (case get_vec (host m') y_ret of
             None \<Rightarrow> None
           | Some v \<Rightarrow> Some (y_ret, m'\<lparr>host := (host m')[y_ret := Vec (v[0 := v ! 0 + 1])]\<rparr>)))"

definition perturbed_globals :: "(string \<times> global_obj) list" where
  "perturbed_globals = module_globals @ [(''gemv_perturbed'', Kernel gemv_perturbed)]"


section \<open>Timer: properties\<close>

lemma elapsed_time_timed_region:
  "elapsed_time (timed_region t0 a b) = Some (t0 + (b - a))"
  by (simp add: elapsed_time_def timed_region_def time_region_exit_def
      time_region_enter_def time_region_init_def)

lemma chained_regions_total:
  "chained_regions t0 rs = Some (t0 + (\<Sum>(a, b)\<leftarrow>rs. b - a))"
proof (induction rs arbitrary: t0)
  case Nil
  show ?case by simp
next
  case (Cons r rs)
  obtain a b where r: "r = (a, b)" by (cases r)
  show ?case
    by (simp add: r elapsed_time_timed_region Cons.IH add.assoc)
qed

text \<open>
  Claim C9. A region constructed with offset \<open>t0\<close>, entered at \<open>a\<close> and left at \<open>b\<close>,
  reports \<open>t0 + (b - a)\<close>. A second region that takes the first one's elapsed time as
  its offset reports the sum of both durations on top of \<open>t0\<close>, and a chain of any
  number of regions reports \<open>t0\<close> plus the sum of all the durations.
\<close>

theorem time_region_offset_composable:
  "elapsed_time (timed_region t0 a b) = Some (t0 + (b - a))
   \<and> elapsed_time (timed_region (the (elapsed_time (timed_region t0 a b))) c d)
       = Some (t0 + ((b - a) + (d - c)))
   \<and> chained_regions t0 rs = Some (t0 + (\<Sum>(a, b)\<leftarrow>rs. b - a))"
  by (simp add: elapsed_time_timed_region chained_regions_total)

section \<open>Kernels: properties\<close>

lemma fold_add_sum:
  fixes f :: "nat \<Rightarrow> real"
  shows "fold (\<lambda>j p. p + f j) [0..<n] p0 = p0 + (\<Sum>j<n. f j)"
  by (induction n) (simp_all add: add.assoc)

lemma row_dot_sum: "row_dot A x i = (\<Sum>j<ncols A. mat_at A i j * x ! j)"
  by (simp add: row_dot_def fold_add_sum)

lemma accumulate_tile_sum:
  "accumulate_tile A bsize b i l p0 =
     p0 + (\<Sum>j<BLOCK_SIZE. mat_at A i (j + b * bsize) * l ! j)"
  by (simp add: accumulate_tile_def fold_add_sum)

lemma sum_tiles:
  fixes f :: "nat \<Rightarrow> real"
  shows "(\<Sum>b<n. \<Sum>j<B. f (j + b * B)) = (\<Sum>k<n * B. f k)"
proof (induction n)
  case 0
  show ?case by simp
next
  case (Suc n)
  have "(\<Sum>k<Suc n * B. f k) = (\<Sum>k<n * B. f k) + (\<Sum>k = n * B..<n * B + B. f k)"
    using sum.atLeastLessThan_concat [of 0 "n * B" "n * B + B" f]
    by (simp add: lessThan_atLeast0 add.commute)
  also have "(\<Sum>k = n * B..<n * B + B. f k) = (\<Sum>j<B. f (j + n * B))"
    using sum.shift_bounds_nat_ivl [of f 0 "n * B" B]
    by (simp add: lessThan_atLeast0 add.commute)
  finally show ?case using Suc.IH by simp
qed

text \<open>
  With arrays of the shapes the kernels expect, every index they read is within bounds:
  \<open>A[i, j]\<close> for a row and a column of \<open>A\<close>, and column \<open>j + b * bsize\<close> of tile \<open>b\<close>
  when the blocks have \<open>BLOCK_SIZE\<close> threads.
\<close>

lemma mat_at_in_bounds:
  assumes "i < nrows A" "j < ncols A" "length (elems A) = nrows A * ncols A"
  shows "i + j * nrows A < length (elems A)"
proof -
  have "i + j * nrows A < nrows A + j * nrows A" using assms(1) by simp
  also have "\<dots> = Suc j * nrows A" by simp
  also have "\<dots> \<le> ncols A * nrows A" using assms(2) by (intro mult_le_mono1) simp
  finally show ?thesis by (simp add: assms(3) mult.commute)
qed

lemma tile_index_in_bounds:
  fixes b M bsize j :: nat
  assumes "b < M div bsize" "j < bsize"
  shows "j + b * bsize < M"
proof -
  have "j + b * bsize < bsize + b * bsize" using assms(2) by simp
  also have "\<dots> = Suc b * bsize" by simp
  also have "\<dots> \<le> M div bsize * bsize" using assms(1) by (intro mult_le_mono1) simp
  also have "\<dots> \<le> M" by simp
  finally show ?thesis .
qed

lemma fold_rows_length:
  assumes "\<And>k y. length (F k y) = length y"
  shows "length (fold F ks y) = length y"
  using assms by (induction ks arbitrary: y) simp_all

lemma fold_rows_other:
  assumes "\<And>k y. k \<in> set ks \<Longrightarrow> i \<notin> R k \<Longrightarrow> F k y ! i = y ! i"
    and "\<forall>k\<in>set ks. i \<notin> R k"
  shows "fold F ks y ! i = y ! i"
  using assms by (induction ks arbitrary: y) simp_all

lemma fold_rows_own:
  assumes len: "\<And>k y. length (F k y) = length y"
    and other: "\<And>k y j. k \<in> set ks \<Longrightarrow> j \<notin> R k \<Longrightarrow> F k y ! j = y ! j"
    and own: "\<And>k y j. k \<in> set ks \<Longrightarrow> j \<in> R k \<Longrightarrow> j < length y \<Longrightarrow> F k y ! j = G k j (y ! j)"
    and disj: "\<And>k k'. k \<in> set ks \<Longrightarrow> k' \<in> set ks \<Longrightarrow> k \<noteq> k' \<Longrightarrow> R k \<inter> R k' = {}"
    and "distinct ks" "k \<in> set ks" "i \<in> R k" "i < length y"
  shows "fold F ks y ! i = G k i (y ! i)"
  using assms
proof (induction ks arbitrary: y)
  case Nil
  then show ?case by simp
next
  case (Cons a ks)
  show ?case
  proof (cases "k = a")
    case True
    have "\<forall>k'\<in>set ks. i \<notin> R k'"
    proof
      fix k' assume k': "k' \<in> set ks"
      with Cons.prems(5) have "k' \<noteq> a" by auto
      with Cons.prems(4) [of a k'] k' have "R a \<inter> R k' = {}" by simp
      with Cons.prems(7) True show "i \<notin> R k'" by auto
    qed
    then have "fold F ks (F a y) ! i = F a y ! i"
      using Cons.prems(2) by (intro fold_rows_other [where R = R]) auto
    also have "\<dots> = G a i (y ! i)"
      using Cons.prems(3) [of a i y] Cons.prems(7,8) True by simp
    finally show ?thesis using True by simp
  next
    case False
    with Cons.prems(6) have k: "k \<in> set ks" by simp
    have "R a \<inter> R k = {}" using Cons.prems(4) [of a k] k False by auto
    with Cons.prems(7) have ia: "i \<notin> R a" by auto
    have "fold F ks (F a y) ! i = G k i (F a y ! i)"
    proof (rule Cons.IH)
      show "\<And>k y. length (F k y) = length y" by (rule Cons.prems(1))
      show "\<And>k y j. k \<in> set ks \<Longrightarrow> j \<notin> R k \<Longrightarrow> F k y ! j = y ! j"
        using Cons.prems(2) by simp
      show "\<And>k y j. k \<in> set ks \<Longrightarrow> j \<in> R k \<Longrightarrow> j < length y \<Longrightarrow> F k y ! j = G k j (y ! j)"
        using Cons.prems(3) by simp
      show "\<And>k k'. k \<in> set ks \<Longrightarrow> k' \<in> set ks \<Longrightarrow> k \<noteq> k' \<Longrightarrow> R k \<inter> R k' = {}"
        using Cons.prems(4) by simp
      show "distinct ks" using Cons.prems(5) by simp
      show "k \<in> set ks" by (rule k)
      show "i \<in> R k" by (rule Cons.prems(7))
      show "i < length (F a y)" using Cons.prems(8) Cons.prems(1) by simp
    qed
    also have "F a y ! i = y ! i" using Cons.prems(2) [of a i y] ia by simp
    finally show ?thesis by simp
  qed
qed


lemma grid_inj:
  assumes "grid bsize blk tid = grid bsize blk' tid'" "tid < bsize" "tid' < bsize"
  shows "blk = blk' \<and> tid = tid'"
proof -
  have "(blk * bsize + tid) div bsize = blk" "(blk' * bsize + tid') div bsize = blk'"
    using assms(2,3) by simp_all
  moreover have "(blk * bsize + tid) mod bsize = tid" "(blk' * bsize + tid') mod bsize = tid'"
    using assms(2,3) by simp_all
  ultimately show ?thesis using assms(1) unfolding grid_def by metis
qed

lemma grid_div_mod: "grid bsize (i div bsize) (i mod bsize) = i"
  by (simp add: grid_def)

lemma launch_order_mem:
  assumes "is_launch_order nb bsize threads"
  shows "(blk, tid) \<in> set threads \<longleftrightarrow> blk < nb \<and> tid < bsize"
  using assms by (auto simp: is_launch_order_def launch_threads_def)

lemma gemv_cuda_length: "length (gemv_cuda i alpha A x beta y) = length y"
  by (simp add: gemv_cuda_def)

lemma gemv_cuda_other: "j \<noteq> i \<or> nrows A \<le> i \<Longrightarrow> gemv_cuda i alpha A x beta y ! j = y ! j"
  by (auto simp: gemv_cuda_def)

lemma gemv_cuda_own:
  "i < nrows A \<Longrightarrow> i < length y \<Longrightarrow>
   gemv_cuda i alpha A x beta y ! i = alpha * row_dot A x i + beta * y ! i"
  by (simp add: gemv_cuda_def)

lemma gemv_cuda_launch_fold:
  "gemv_cuda_launch threads bsize alpha A x beta y =
     fold (\<lambda>p. gemv_cuda (grid bsize (fst p) (snd p)) alpha A x beta) threads y"
  by (simp add: gemv_cuda_launch_def case_prod_unfold)

lemma gemv_cuda_launch_length:
  "length (gemv_cuda_launch threads bsize alpha A x beta y) = length y"
  unfolding gemv_cuda_launch_fold by (rule fold_rows_length) (rule gemv_cuda_length)

lemma gemv_cuda_launch_other:
  assumes "is_launch_order nb bsize threads" "nrows A \<le> i \<or> nb * bsize \<le> i"
  shows "gemv_cuda_launch threads bsize alpha A x beta y ! i = y ! i"
  unfolding gemv_cuda_launch_fold
proof (rule fold_rows_other [where R = "\<lambda>p. {grid bsize (fst p) (snd p)} \<inter> {..<nrows A}"])
  show "\<And>k y. k \<in> set threads \<Longrightarrow> i \<notin> {grid bsize (fst k) (snd k)} \<inter> {..<nrows A} \<Longrightarrow>
          gemv_cuda (grid bsize (fst k) (snd k)) alpha A x beta y ! i = y ! i"
    by (rule gemv_cuda_other) auto
  show "\<forall>k\<in>set threads. i \<notin> {grid bsize (fst k) (snd k)} \<inter> {..<nrows A}"
  proof
    fix k assume k: "k \<in> set threads"
    obtain blk tid where [simp]: "k = (blk, tid)" by (cases k)
    from k assms(1) have bt: "blk < nb" "tid < bsize" by (simp_all add: launch_order_mem)
    then have "grid bsize blk tid < nb * bsize"
    proof -
      have "blk * bsize + tid < blk * bsize + bsize" using bt by simp
      also have "\<dots> = Suc blk * bsize" by simp
      also have "\<dots> \<le> nb * bsize" using bt by (intro mult_le_mono1) simp
      finally show ?thesis by (simp add: grid_def)
    qed
    with assms(2) show "i \<notin> {grid bsize (fst k) (snd k)} \<inter> {..<nrows A}" by auto
  qed
qed

lemma gemv_cuda_launch_own:
  assumes ord: "is_launch_order nb bsize threads"
    and i: "i < nrows A" "i < nb * bsize" "i < length y"
  shows "gemv_cuda_launch threads bsize alpha A x beta y ! i =
           alpha * row_dot A x i + beta * y ! i"
  unfolding gemv_cuda_launch_fold
proof (rule fold_rows_own [where R = "\<lambda>p. {grid bsize (fst p) (snd p)} \<inter> {..<nrows A}"
      and G = "\<lambda>p j v. alpha * row_dot A x j + beta * v"
      and k = "(i div bsize, i mod bsize)"])
  show "\<And>k y. length (gemv_cuda (grid bsize (fst k) (snd k)) alpha A x beta y) = length y"
    by (rule gemv_cuda_length)
  show "\<And>k y j. k \<in> set threads \<Longrightarrow> j \<notin> {grid bsize (fst k) (snd k)} \<inter> {..<nrows A} \<Longrightarrow>
          gemv_cuda (grid bsize (fst k) (snd k)) alpha A x beta y ! j = y ! j"
    by (rule gemv_cuda_other) auto
  show "\<And>k y j. k \<in> set threads \<Longrightarrow> j \<in> {grid bsize (fst k) (snd k)} \<inter> {..<nrows A} \<Longrightarrow>
          j < length y \<Longrightarrow>
          gemv_cuda (grid bsize (fst k) (snd k)) alpha A x beta y ! j =
            alpha * row_dot A x j + beta * y ! j"
    by (simp add: gemv_cuda_own)
  show "\<And>k k'. k \<in> set threads \<Longrightarrow> k' \<in> set threads \<Longrightarrow> k \<noteq> k' \<Longrightarrow>
          ({grid bsize (fst k) (snd k)} \<inter> {..<nrows A}) \<inter>
          ({grid bsize (fst k') (snd k')} \<inter> {..<nrows A}) = {}"
  proof -
    fix k k' assume kk: "k \<in> set threads" "k' \<in> set threads" "k \<noteq> k'"
    obtain blk tid blk' tid' where [simp]: "k = (blk, tid)" "k' = (blk', tid')"
      by (cases k, cases k')
    from kk ord have "tid < bsize" "tid' < bsize" by (simp_all add: launch_order_mem)
    with grid_inj [of bsize blk tid blk' tid'] kk(3)
    have "grid bsize blk tid \<noteq> grid bsize blk' tid'" by auto
    then show "({grid bsize (fst k) (snd k)} \<inter> {..<nrows A}) \<inter>
          ({grid bsize (fst k') (snd k')} \<inter> {..<nrows A}) = {}" by auto
  qed
  show "distinct threads" using ord by (simp add: is_launch_order_def)
  have pos: "0 < bsize" using i(2) by (cases bsize) simp_all
  have "i div bsize < nb" using i(2) pos by (simp add: less_mult_imp_div_less)
  moreover have "i mod bsize < bsize" using pos by simp
  ultimately show "(i div bsize, i mod bsize) \<in> set threads"
    using ord by (simp add: launch_order_mem)
  show "i \<in> {grid bsize (fst (i div bsize, i mod bsize)) (snd (i div bsize, i mod bsize))}
          \<inter> {..<nrows A}"
    using i(1) by (simp add: grid_div_mod)
  show "i < length y" by (rule i(3))
qed


lemma BLOCK_SIZE_pos: "0 < BLOCK_SIZE"
  by (simp add: BLOCK_SIZE_def)

lemma load_tile_length: "length (load_tile x bsize b a l) = length l"
  by (simp add: load_tile_def)

lemma load_tile_nth:
  "j < length l \<Longrightarrow>
   load_tile x bsize b a l ! j = (if j = a then x ! (a + b * bsize) else l ! j)"
  by (simp add: load_tile_def)

lemma load_phase_length: "length (fold (load_tile x bsize b) alive l) = length l"
  by (rule fold_rows_length) (rule load_tile_length)

lemma load_phase_nth:
  "j < length l \<Longrightarrow>
   fold (load_tile x bsize b) alive l ! j =
     (if j \<in> set alive then x ! (j + b * bsize) else l ! j)"
proof (induction alive arbitrary: l)
  case Nil
  show ?case by simp
next
  case (Cons a alive)
  have "fold (load_tile x bsize b) alive (load_tile x bsize b a l) ! j =
          (if j \<in> set alive then x ! (j + b * bsize) else load_tile x bsize b a l ! j)"
    using Cons.prems by (intro Cons.IH) (simp add: load_tile_length)
  then show ?case using Cons.prems by (simp add: load_tile_nth)
qed

lemma accumulate_phase_length:
  "length (fold (\<lambda>tid ps. ps[tid := g tid (ps ! tid)]) alive ps) = length ps"
  by (rule fold_rows_length) simp

lemma accumulate_phase_own:
  assumes "distinct alive" "t \<in> set alive" "t < length ps"
  shows "fold (\<lambda>tid ps. ps[tid := g tid (ps ! tid)]) alive ps ! t = g t (ps ! t)"
  by (rule fold_rows_own [where R = "\<lambda>tid. {tid}" and G = "\<lambda>tid j v. g tid v" and k = t])
    (use assms in auto)

lemma tiles_invariant:
  fixes A :: matrix and x :: vec and blk k :: nat
  assumes "distinct alive" "set alive \<subseteq> {..<BLOCK_SIZE}" "length lx0 = BLOCK_SIZE"
  defines "s \<equiv> fold (tile_step alive A x BLOCK_SIZE blk) [0..<k]
                  \<lparr>lx = lx0, prods = replicate BLOCK_SIZE 0\<rparr>"
  shows "length (lx s) = BLOCK_SIZE \<and> length (prods s) = BLOCK_SIZE
         \<and> (\<forall>j<BLOCK_SIZE. j \<notin> set alive \<longrightarrow> lx s ! j = lx0 ! j)
         \<and> (\<forall>tid\<in>set alive. prods s ! tid =
               (\<Sum>b<k. \<Sum>j<BLOCK_SIZE. mat_at A (grid BLOCK_SIZE blk tid) (j + b * BLOCK_SIZE)
                  * (if j \<in> set alive then x ! (j + b * BLOCK_SIZE) else lx0 ! j)))"
  unfolding s_def
proof (induction k)
  case 0
  show ?case using assms(2,3) by auto
next
  case (Suc k)
  define s where "s = fold (tile_step alive A x BLOCK_SIZE blk) [0..<k]
                  \<lparr>lx = lx0, prods = replicate BLOCK_SIZE 0\<rparr>"
  define lx1 where "lx1 = fold (load_tile x BLOCK_SIZE k) alive (lx s)"
  define g where "g = (\<lambda>tid. accumulate_tile A BLOCK_SIZE k (grid BLOCK_SIZE blk tid) lx1)"
  define ps1 where "ps1 = fold (\<lambda>tid ps. ps[tid := g tid (ps ! tid)]) alive (prods s)"
  have step: "fold (tile_step alive A x BLOCK_SIZE blk) [0..<Suc k]
                  \<lparr>lx = lx0, prods = replicate BLOCK_SIZE 0\<rparr> = \<lparr>lx = lx1, prods = ps1\<rparr>"
    by (simp add: s_def [symmetric] tile_step_def Let_def lx1_def ps1_def g_def)
  from Suc.IH have len: "length (lx s) = BLOCK_SIZE" "length (prods s) = BLOCK_SIZE"
    and dead: "\<And>j. j < BLOCK_SIZE \<Longrightarrow> j \<notin> set alive \<Longrightarrow> lx s ! j = lx0 ! j"
    and acc: "\<And>tid. tid \<in> set alive \<Longrightarrow> prods s ! tid =
               (\<Sum>b<k. \<Sum>j<BLOCK_SIZE. mat_at A (grid BLOCK_SIZE blk tid) (j + b * BLOCK_SIZE)
                  * (if j \<in> set alive then x ! (j + b * BLOCK_SIZE) else lx0 ! j))"
    unfolding s_def by blast+
  have lx1_len: "length lx1 = BLOCK_SIZE" by (simp add: lx1_def load_phase_length len)
  have lx1_nth: "lx1 ! j = (if j \<in> set alive then x ! (j + k * BLOCK_SIZE) else lx0 ! j)"
    if "j < BLOCK_SIZE" for j
    using that by (simp add: lx1_def load_phase_nth len dead)
  have ps1_len: "length ps1 = BLOCK_SIZE" by (simp add: ps1_def accumulate_phase_length len)
  have ps1_nth: "ps1 ! tid =
      (\<Sum>b<Suc k. \<Sum>j<BLOCK_SIZE. mat_at A (grid BLOCK_SIZE blk tid) (j + b * BLOCK_SIZE)
                  * (if j \<in> set alive then x ! (j + b * BLOCK_SIZE) else lx0 ! j))"
    if tid: "tid \<in> set alive" for tid
  proof -
    have "tid < length (prods s)" using tid assms(2) len by auto
    then have "ps1 ! tid = g tid (prods s ! tid)"
      unfolding ps1_def using assms(1) tid by (intro accumulate_phase_own)
    also have "\<dots> = prods s ! tid +
        (\<Sum>j<BLOCK_SIZE. mat_at A (grid BLOCK_SIZE blk tid) (j + k * BLOCK_SIZE) * lx1 ! j)"
      by (simp add: g_def accumulate_tile_sum)
    also have "(\<Sum>j<BLOCK_SIZE. mat_at A (grid BLOCK_SIZE blk tid) (j + k * BLOCK_SIZE) * lx1 ! j)
        = (\<Sum>j<BLOCK_SIZE. mat_at A (grid BLOCK_SIZE blk tid) (j + k * BLOCK_SIZE)
             * (if j \<in> set alive then x ! (j + k * BLOCK_SIZE) else lx0 ! j))"
      by (rule sum.cong) (simp_all add: lx1_nth)
    finally show ?thesis by (simp add: acc [OF tid])
  qed
  show ?case
    unfolding step using lx1_len ps1_len lx1_nth ps1_nth by simp
qed


lemma alive_props:
  fixes A :: matrix and blk :: nat
  assumes "is_order BLOCK_SIZE threads"
  defines "alive \<equiv> filter (survives A BLOCK_SIZE blk) threads"
  shows "distinct alive" "set alive \<subseteq> {..<BLOCK_SIZE}"
    "\<And>j. j \<in> set alive \<longleftrightarrow> j < BLOCK_SIZE \<and> survives A BLOCK_SIZE blk j"
  using assms by (auto simp: is_order_def)

lemma shared_block_fold:
  "gemv_cuda_shared_block threads lx0 bsize blk alpha A x beta y =
     fold (\<lambda>tid y. y[grid bsize blk tid :=
             alpha * prods (fold (tile_step (filter (survives A bsize blk) threads) A x bsize blk)
                              [0..<ncols A div bsize] \<lparr>lx = lx0, prods = replicate bsize 0\<rparr>) ! tid
               + beta * y ! (grid bsize blk tid)])
       (filter (survives A bsize blk) threads) y"
  by (simp add: gemv_cuda_shared_block_def Let_def)

lemma shared_block_length:
  "length (gemv_cuda_shared_block threads lx0 bsize blk alpha A x beta y) = length y"
  unfolding shared_block_fold by (rule fold_rows_length) simp

lemma shared_block_other:
  assumes "is_order BLOCK_SIZE threads" "i div BLOCK_SIZE \<noteq> blk \<or> nrows A \<le> i"
  shows "gemv_cuda_shared_block threads lx0 BLOCK_SIZE blk alpha A x beta y ! i = y ! i"
  unfolding shared_block_fold
proof (rule fold_rows_other [where R = "\<lambda>tid. {grid BLOCK_SIZE blk tid}"])
  show "\<forall>k\<in>set (filter (survives A BLOCK_SIZE blk) threads). i \<notin> {grid BLOCK_SIZE blk k}"
  proof
    fix k assume "k \<in> set (filter (survives A BLOCK_SIZE blk) threads)"
    then have k: "k < BLOCK_SIZE" "survives A BLOCK_SIZE blk k"
      using alive_props(3) [OF assms(1)] by auto
    then have "grid BLOCK_SIZE blk k div BLOCK_SIZE = blk" "grid BLOCK_SIZE blk k < nrows A"
      by (simp_all add: grid_def survives_def)
    with assms(2) show "i \<notin> {grid BLOCK_SIZE blk k}" by auto
  qed
qed simp

lemma shared_block_own:
  assumes ord: "is_order BLOCK_SIZE threads" and lx0: "length lx0 = BLOCK_SIZE"
    and i: "i div BLOCK_SIZE = blk" "i < nrows A" "i < length y"
  shows "gemv_cuda_shared_block threads lx0 BLOCK_SIZE blk alpha A x beta y ! i =
           tiled_row alpha A x beta y lx0 i"
proof -
  define alive where "alive = filter (survives A BLOCK_SIZE blk) threads"
  define s where "s = fold (tile_step alive A x BLOCK_SIZE blk) [0..<ncols A div BLOCK_SIZE]
                        \<lparr>lx = lx0, prods = replicate BLOCK_SIZE 0\<rparr>"
  note al = alive_props [OF ord, where A = A and blk = blk, folded alive_def]
  have gi: "grid BLOCK_SIZE blk (i mod BLOCK_SIZE) = i"
    using i(1) grid_div_mod [of BLOCK_SIZE i] by simp
  have tid: "i mod BLOCK_SIZE \<in> set alive"
    using al(3) [of "i mod BLOCK_SIZE"] BLOCK_SIZE_pos i(2) gi by (simp add: survives_def)
  have "fold (\<lambda>tid y. y[grid BLOCK_SIZE blk tid :=
             alpha * prods s ! tid + beta * y ! (grid BLOCK_SIZE blk tid)]) alive y ! i
        = alpha * prods s ! (i mod BLOCK_SIZE) + beta * y ! i"
  proof (rule fold_rows_own [where R = "\<lambda>tid. {grid BLOCK_SIZE blk tid}"
        and G = "\<lambda>tid j v. alpha * prods s ! tid + beta * v" and k = "i mod BLOCK_SIZE"])
    show "\<And>k k'. k \<in> set alive \<Longrightarrow> k' \<in> set alive \<Longrightarrow> k \<noteq> k' \<Longrightarrow>
            {grid BLOCK_SIZE blk k} \<inter> {grid BLOCK_SIZE blk k'} = {}"
      by (simp add: grid_def)
    show "distinct alive" by (rule al(1))
    show "i mod BLOCK_SIZE \<in> set alive" by (rule tid)
    show "i \<in> {grid BLOCK_SIZE blk (i mod BLOCK_SIZE)}" using gi by simp
    show "i < length y" by (rule i(3))
  qed simp_all
  also have "prods s ! (i mod BLOCK_SIZE) =
      (\<Sum>b<ncols A div BLOCK_SIZE. \<Sum>j<BLOCK_SIZE. mat_at A i (j + b * BLOCK_SIZE)
                  * (if j \<in> set alive then x ! (j + b * BLOCK_SIZE) else lx0 ! j))"
    using tiles_invariant [OF al(1) al(2) lx0, of A x blk "ncols A div BLOCK_SIZE"] tid gi
    unfolding s_def by auto
  also have "\<dots> = (\<Sum>b<ncols A div BLOCK_SIZE. \<Sum>j<BLOCK_SIZE. mat_at A i (j + b * BLOCK_SIZE)
                  * staged A x lx0 (i div BLOCK_SIZE) b j)"
    by (intro sum.cong refl) (simp add: staged_def al(3) i(1))
  finally show ?thesis
    by (simp add: shared_block_fold alive_def s_def tiled_row_def)
qed

lemma shared_launch_fold_length:
  "length (gemv_cuda_shared_launch blocks threads lx0 bsize alpha A x beta y) = length y"
  unfolding gemv_cuda_shared_launch_def by (rule fold_rows_length) (rule shared_block_length)

lemma shared_launch_other:
  assumes "\<forall>blk\<in>set blocks. is_order BLOCK_SIZE (threads blk)"
    and "i div BLOCK_SIZE \<notin> set blocks \<or> nrows A \<le> i"
  shows "gemv_cuda_shared_launch blocks threads lx0 BLOCK_SIZE alpha A x beta y ! i = y ! i"
  unfolding gemv_cuda_shared_launch_def
  by (rule fold_rows_other [where R = "\<lambda>blk. {j. j div BLOCK_SIZE = blk \<and> j < nrows A}"])
    (use assms in \<open>auto intro!: shared_block_other\<close>)

lemma shared_launch_own:
  assumes "distinct blocks"
    and "\<forall>blk\<in>set blocks. is_order BLOCK_SIZE (threads blk) \<and> length (lx0 blk) = BLOCK_SIZE"
    and "i div BLOCK_SIZE \<in> set blocks" "i < nrows A" "i < length y"
  shows "gemv_cuda_shared_launch blocks threads lx0 BLOCK_SIZE alpha A x beta y ! i =
           tiled_row alpha A x beta y (lx0 (i div BLOCK_SIZE)) i"
proof -
  have "fold (\<lambda>blk. gemv_cuda_shared_block (threads blk) (lx0 blk) BLOCK_SIZE blk alpha A x beta)
          blocks y ! i =
        (\<lambda>blk j v. alpha * (\<Sum>b<ncols A div BLOCK_SIZE. \<Sum>c<BLOCK_SIZE.
                mat_at A j (c + b * BLOCK_SIZE) * staged A x (lx0 blk) blk b c) + beta * v)
          (i div BLOCK_SIZE) i (y ! i)"
  proof (rule fold_rows_own [where R = "\<lambda>blk. {j. j div BLOCK_SIZE = blk \<and> j < nrows A}"
        and G = "\<lambda>blk j v. alpha * (\<Sum>b<ncols A div BLOCK_SIZE. \<Sum>c<BLOCK_SIZE.
                mat_at A j (c + b * BLOCK_SIZE) * staged A x (lx0 blk) blk b c) + beta * v"
        and k = "i div BLOCK_SIZE"])
    show "\<And>k y. length (gemv_cuda_shared_block (threads k) (lx0 k) BLOCK_SIZE k alpha A x beta y)
            = length y"
      by (rule shared_block_length)
    show "\<And>k y j. k \<in> set blocks \<Longrightarrow> j \<notin> {j. j div BLOCK_SIZE = k \<and> j < nrows A} \<Longrightarrow>
            gemv_cuda_shared_block (threads k) (lx0 k) BLOCK_SIZE k alpha A x beta y ! j = y ! j"
      using assms(2) by (intro shared_block_other) auto
    show "\<And>k y j. k \<in> set blocks \<Longrightarrow> j \<in> {j. j div BLOCK_SIZE = k \<and> j < nrows A} \<Longrightarrow>
            j < length y \<Longrightarrow>
            gemv_cuda_shared_block (threads k) (lx0 k) BLOCK_SIZE k alpha A x beta y ! j =
              alpha * (\<Sum>b<ncols A div BLOCK_SIZE. \<Sum>c<BLOCK_SIZE.
                mat_at A j (c + b * BLOCK_SIZE) * staged A x (lx0 k) k b c) + beta * y ! j"
      using assms(2) by (subst shared_block_own) (auto simp: tiled_row_def)
    show "\<And>k k'. k \<in> set blocks \<Longrightarrow> k' \<in> set blocks \<Longrightarrow> k \<noteq> k' \<Longrightarrow>
            {j. j div BLOCK_SIZE = k \<and> j < nrows A} \<inter> {j. j div BLOCK_SIZE = k' \<and> j < nrows A} = {}"
      by auto
    show "distinct blocks" by (rule assms(1))
    show "i div BLOCK_SIZE \<in> set blocks" by (rule assms(3))
    show "i \<in> {j. j div BLOCK_SIZE = i div BLOCK_SIZE \<and> j < nrows A}" using assms(4) by simp
    show "i < length y" by (rule assms(5))
  qed
  then show ?thesis by (simp add: gemv_cuda_shared_launch_def tiled_row_def)
qed


lemma is_order_upt: "is_order n [0..<n]"
  by (simp add: is_order_def)

lemma tiled_row_full_group:
  assumes "(i div BLOCK_SIZE) * BLOCK_SIZE + BLOCK_SIZE \<le> nrows A"
  shows "tiled_row alpha A x beta y lx0 i =
           gemv_ref_row alpha A x beta y i (ncols A div BLOCK_SIZE * BLOCK_SIZE)"
proof -
  have st: "staged A x lx0 (i div BLOCK_SIZE) b j = x ! (j + b * BLOCK_SIZE)"
    if "j < BLOCK_SIZE" for b j
    using that assms by (simp add: staged_def survives_def grid_def)
  have "(\<Sum>b<ncols A div BLOCK_SIZE. \<Sum>j<BLOCK_SIZE.
            mat_at A i (j + b * BLOCK_SIZE) * staged A x lx0 (i div BLOCK_SIZE) b j)
        = (\<Sum>b<ncols A div BLOCK_SIZE. \<Sum>j<BLOCK_SIZE.
            mat_at A i (j + b * BLOCK_SIZE) * x ! (j + b * BLOCK_SIZE))"
    by (intro sum.cong refl) (simp add: st)
  also have "\<dots> = (\<Sum>k<ncols A div BLOCK_SIZE * BLOCK_SIZE. mat_at A i k * x ! k)"
    by (rule sum_tiles [where f = "\<lambda>k. mat_at A i k * x ! k"])
  finally show ?thesis by (simp add: tiled_row_def gemv_ref_row_def)
qed

lemma tiled_row_no_tile:
  assumes "ncols A < BLOCK_SIZE"
  shows "tiled_row alpha A x beta y lx0 i =
           gemv_ref_row alpha A x beta y i (ncols A div BLOCK_SIZE * BLOCK_SIZE)"
  using assms by (simp add: tiled_row_def gemv_ref_row_def)

text \<open>
  Claim C1. Let \<open>A\<close> be square of dimension \<open>N\<close>, a positive multiple of
  \<open>BLOCK_SIZE\<close>, and let the tiled kernel be launched with blocks of \<open>BLOCK_SIZE\<close>
  threads, one thread per row (\<open>N div BLOCK_SIZE\<close> blocks). Whatever the order of the
  blocks, the order of the threads between barriers and the initial contents of the shared
  arrays, the output has length \<open>N\<close> and its row \<open>i\<close> is
  \<open>alpha * (\<Sum>j<N. A[i,j] * x[j]) + beta * y[i]\<close>.
\<close>

theorem tiled_kernel_matches_reference:
  assumes N: "0 < N" "N mod BLOCK_SIZE = 0"
    and shape: "nrows A = N" "ncols A = N" "length (elems A) = N * N"
      "length x = N" "length y = N"
    and blocks: "is_order (N div BLOCK_SIZE) blocks"
    and threads: "\<forall>blk<N div BLOCK_SIZE.
        is_order BLOCK_SIZE (threads blk) \<and> length (lx0 blk) = BLOCK_SIZE"
  shows "length (gemv_cuda_shared_launch blocks threads lx0 BLOCK_SIZE alpha A x beta y) = N
    \<and> (\<forall>i<N. gemv_cuda_shared_launch blocks threads lx0 BLOCK_SIZE alpha A x beta y ! i
                = gemv_ref_row alpha A x beta y i N)"
proof (intro conjI allI impI)
  show "length (gemv_cuda_shared_launch blocks threads lx0 BLOCK_SIZE alpha A x beta y) = N"
    by (simp add: shared_launch_fold_length shape)
next
  fix i assume i: "i < N"
  have NB: "N div BLOCK_SIZE * BLOCK_SIZE = N" using N(2) by auto
  have blk: "i div BLOCK_SIZE < N div BLOCK_SIZE"
    using i NB BLOCK_SIZE_pos by (metis less_mult_imp_div_less)
  have "Suc (i div BLOCK_SIZE) * BLOCK_SIZE \<le> N div BLOCK_SIZE * BLOCK_SIZE"
    using blk by (intro mult_le_mono1) simp
  then have full: "(i div BLOCK_SIZE) * BLOCK_SIZE + BLOCK_SIZE \<le> nrows A"
    using NB shape(1) by simp
  have "gemv_cuda_shared_launch blocks threads lx0 BLOCK_SIZE alpha A x beta y ! i =
          tiled_row alpha A x beta y (lx0 (i div BLOCK_SIZE)) i"
    using blocks threads blk i shape
    by (intro shared_launch_own) (auto simp: is_order_def)
  also have "\<dots> = gemv_ref_row alpha A x beta y i (ncols A div BLOCK_SIZE * BLOCK_SIZE)"
    by (rule tiled_row_full_group [OF full])
  finally show "gemv_cuda_shared_launch blocks threads lx0 BLOCK_SIZE alpha A x beta y ! i
                = gemv_ref_row alpha A x beta y i N"
    by (simp add: shape NB)
qed

text \<open>
  Where the tiled kernel does compute the partial reduction: for any \<open>N\<close> by \<open>M\<close> matrix,
  launched with blocks of \<open>BLOCK_SIZE\<close> threads on a grid that covers the rows, every row
  whose block is full (all its threads pass the guard), and every row at all when
  \<open>M < BLOCK_SIZE\<close>, gets the sum over the first \<open>(M div BLOCK_SIZE) * BLOCK_SIZE\<close> columns.
\<close>

lemma tiled_kernel_full_groups:
  assumes shape: "length (elems A) = nrows A * ncols A" "length x = ncols A"
      "length y = nrows A"
    and blocks: "is_order nb blocks" "nrows A \<le> nb * BLOCK_SIZE"
    and threads: "\<forall>blk<nb. is_order BLOCK_SIZE (threads blk) \<and> length (lx0 blk) = BLOCK_SIZE"
    and i: "i < nrows A"
      "(i div BLOCK_SIZE) * BLOCK_SIZE + BLOCK_SIZE \<le> nrows A \<or> ncols A < BLOCK_SIZE"
  shows "gemv_cuda_shared_launch blocks threads lx0 BLOCK_SIZE alpha A x beta y ! i
           = gemv_ref_row alpha A x beta y i (ncols A div BLOCK_SIZE * BLOCK_SIZE)"
proof -
  have "i < nb * BLOCK_SIZE" using i(1) blocks(2) by simp
  then have blk: "i div BLOCK_SIZE < nb"
    using BLOCK_SIZE_pos by (simp add: less_mult_imp_div_less)
  have "gemv_cuda_shared_launch blocks threads lx0 BLOCK_SIZE alpha A x beta y ! i =
          tiled_row alpha A x beta y (lx0 (i div BLOCK_SIZE)) i"
    using blocks threads blk i shape
    by (intro shared_launch_own) (auto simp: is_order_def)
  also have "\<dots> = gemv_ref_row alpha A x beta y i (ncols A div BLOCK_SIZE * BLOCK_SIZE)"
    using i(2) tiled_row_full_group tiled_row_no_tile by blast
  finally show ?thesis .
qed


lemma ones_matrix_simps:
  "nrows (ones_matrix n m) = n" "ncols (ones_matrix n m) = m"
  "length (elems (ones_matrix n m)) = n * m"
  by (simp_all add: ones_matrix_def)

lemma ones_matrix_at: "i < n \<Longrightarrow> j < m \<Longrightarrow> mat_at (ones_matrix n m) i j = 1"
proof -
  assume ij: "i < n" "j < m"
  have "i + j * n < n + j * n" using ij by simp
  also have "\<dots> = Suc j * n" by simp
  also have "\<dots> \<le> m * n" using ij by (intro mult_le_mono1) simp
  finally show ?thesis by (simp add: mat_at_def ones_matrix_def mult.commute)
qed

lemma tiled_row_example:
  "tiled_row 1 (ones_matrix 129 129) (replicate 129 1) 0 (replicate 129 0)
     (replicate BLOCK_SIZE v) 128 = 1 + 127 * v"
proof -
  let ?A = "ones_matrix 129 129"
  have tiles: "ncols ?A div BLOCK_SIZE = Suc 0"
    by (simp add: ones_matrix_simps BLOCK_SIZE_def)
  have "(\<Sum>j<BLOCK_SIZE. mat_at ?A 128 (j + 0 * BLOCK_SIZE)
            * staged ?A (replicate 129 1) (replicate BLOCK_SIZE v) (128 div BLOCK_SIZE) 0 j)
        = (\<Sum>j<BLOCK_SIZE. if j = 0 then 1 else v)"
    by (intro sum.cong refl)
      (auto simp: staged_def survives_def grid_def ones_matrix_simps ones_matrix_at
        BLOCK_SIZE_def)
  also have "\<dots> = (\<Sum>j\<in>insert 0 {1..<128::nat}. if j = 0 then 1 else v)"
    by (intro sum.cong) (auto simp: BLOCK_SIZE_def)
  also have "\<dots> = 1 + 127 * v"
    by (subst sum.insert) simp_all
  finally show ?thesis
    by (simp add: tiled_row_def tiles)
qed

lemma gemv_ref_row_example:
  "gemv_ref_row 1 (ones_matrix 129 129) (replicate 129 1) 0 (replicate 129 0) 128
     (129 div BLOCK_SIZE * BLOCK_SIZE) = 128"
proof -
  have "(\<Sum>j<128. mat_at (ones_matrix 129 129) 128 j * replicate 129 (1::real) ! j)
          = (\<Sum>j<(128::nat). 1)"
    by (intro sum.cong refl) (simp add: ones_matrix_at)
  then show ?thesis by (simp add: gemv_ref_row_def BLOCK_SIZE_def)
qed

lemma shared_launch_example:
  "gemv_cuda_shared_launch [0..<num_blocks 129] (\<lambda>blk. [0..<BLOCK_SIZE])
       (\<lambda>blk. replicate BLOCK_SIZE v) BLOCK_SIZE 1 (ones_matrix 129 129) (replicate 129 1)
       0 (replicate 129 0) ! 128 = 1 + 127 * v"
proof -
  have nb: "num_blocks 129 = 2" by (simp add: num_blocks_def BLOCK_SIZE_def)
  have d: "(128::nat) div BLOCK_SIZE = 1" by (simp add: BLOCK_SIZE_def)
  have "gemv_cuda_shared_launch [0..<num_blocks 129] (\<lambda>blk. [0..<BLOCK_SIZE])
       (\<lambda>blk. replicate BLOCK_SIZE v) BLOCK_SIZE 1 (ones_matrix 129 129) (replicate 129 1)
       0 (replicate 129 0) ! 128
     = tiled_row 1 (ones_matrix 129 129) (replicate 129 1) 0 (replicate 129 0)
         (replicate BLOCK_SIZE v) 128"
    by (subst shared_launch_own) (simp_all add: is_order_upt nb d ones_matrix_simps)
  then show ?thesis by (simp add: tiled_row_example)
qed

text \<open>
  Claim C3 at \<open>N = M = 129\<close>, which is not a multiple of \<open>BLOCK_SIZE\<close>: all of \<open>A\<close> and \<open>x\<close>
  ones, \<open>alpha = 1\<close>, \<open>beta = 0\<close>, two blocks of \<open>BLOCK_SIZE\<close> threads, the shared arrays
  zero at the start. Row 128 survives the guard and is the only row of block 1 that does.
  The claim gives it the sum of the first 128 terms, which is \<open>128\<close>. The kernel gives it
  \<open>1\<close>: the thread of row 128 loads \<open>lx[0]\<close>, the other 127 threads of the block have
  returned at the guard and load nothing, and the row adds up 127 cells of the shared
  array that nobody has written.
\<close>

theorem tiled_kernel_partial_group_defect:
  "gemv_cuda_shared_launch [0..<num_blocks 129] (\<lambda>blk. [0..<BLOCK_SIZE])
       (\<lambda>blk. replicate BLOCK_SIZE 0) BLOCK_SIZE 1 (ones_matrix 129 129) (replicate 129 1)
       0 (replicate 129 0) ! 128 = 1
   \<and> gemv_ref_row 1 (ones_matrix 129 129) (replicate 129 1) 0 (replicate 129 0) 128
         (129 div BLOCK_SIZE * BLOCK_SIZE) = 128"
  by (simp add: shared_launch_example gemv_ref_row_example)

text \<open>
  Claim C10 for the tiled kernel, at the same input: the same launch on the same \<open>A\<close>,
  \<open>x\<close>, \<open>y\<close>, \<open>alpha\<close>, \<open>beta\<close>, once with the shared array holding zeros at the start
  and once holding ones, gives \<open>1\<close> and \<open>128\<close> in row 128. The two outputs differ though
  the inputs are identical.
\<close>

theorem tiled_kernel_uninitialised_defect:
  "gemv_cuda_shared_launch [0..<num_blocks 129] (\<lambda>blk. [0..<BLOCK_SIZE])
       (\<lambda>blk. replicate BLOCK_SIZE 0) BLOCK_SIZE 1 (ones_matrix 129 129) (replicate 129 1)
       0 (replicate 129 0) ! 128 = 1
   \<and> gemv_cuda_shared_launch [0..<num_blocks 129] (\<lambda>blk. [0..<BLOCK_SIZE])
       (\<lambda>blk. replicate BLOCK_SIZE 1) BLOCK_SIZE 1 (ones_matrix 129 129) (replicate 129 1)
       0 (replicate 129 0) ! 128 = 128
   \<and> gemv_cuda_shared_launch [0..<num_blocks 129] (\<lambda>blk. [0..<BLOCK_SIZE])
       (\<lambda>blk. replicate BLOCK_SIZE 0) BLOCK_SIZE 1 (ones_matrix 129 129) (replicate 129 1)
       0 (replicate 129 0)
     \<noteq> gemv_cuda_shared_launch [0..<num_blocks 129] (\<lambda>blk. [0..<BLOCK_SIZE])
       (\<lambda>blk. replicate BLOCK_SIZE 1) BLOCK_SIZE 1 (ones_matrix 129 129) (replicate 129 1)
       0 (replicate 129 0)"
proof -
  let ?zeros = "gemv_cuda_shared_launch [0..<num_blocks 129] (\<lambda>blk. [0..<BLOCK_SIZE])
       (\<lambda>blk. replicate BLOCK_SIZE 0) BLOCK_SIZE 1 (ones_matrix 129 129) (replicate 129 1)
       0 (replicate 129 0)"
  let ?ones = "gemv_cuda_shared_launch [0..<num_blocks 129] (\<lambda>blk. [0..<BLOCK_SIZE])
       (\<lambda>blk. replicate BLOCK_SIZE 1) BLOCK_SIZE 1 (ones_matrix 129 129) (replicate 129 1)
       0 (replicate 129 0)"
  have z: "?zeros ! 128 = 1" by (simp add: shared_launch_example)
  have o: "?ones ! 128 = 128" by (simp add: shared_launch_example)
  have "?zeros \<noteq> ?ones"
  proof
    assume "?zeros = ?ones"
    then have "?zeros ! 128 = ?ones ! 128" by simp
    with z o show False by simp
  qed
  with z o show ?thesis by blast
qed

lemma gemv_ref_row_ones:
  assumes "i < n" "k \<le> m"
  shows "gemv_ref_row alpha (ones_matrix n m) (replicate m 1) beta y i k
           = alpha * real k + beta * y ! i"
proof -
  have "(\<Sum>j<k. mat_at (ones_matrix n m) i j * replicate m (1::real) ! j) = (\<Sum>j<k. 1)"
    using assms by (intro sum.cong refl) (simp add: ones_matrix_at)
  then show ?thesis by (simp add: gemv_ref_row_def)
qed

text \<open>
  Witness for C1: \<open>N = 128\<close>, all of \<open>A\<close>, \<open>x\<close>, \<open>y\<close> ones, \<open>alpha = 2\<close>, \<open>beta = 3\<close>;
  row 5 is \<open>2 * 128 + 3\<close>.
\<close>

theorem tiled_kernel_matches_reference_witness:
  "length (gemv_cuda_shared_launch [0..<1] (\<lambda>blk. [0..<BLOCK_SIZE])
      (\<lambda>blk. replicate BLOCK_SIZE 0) BLOCK_SIZE 2 (ones_matrix 128 128) (replicate 128 1)
      3 (replicate 128 1)) = 128
   \<and> gemv_cuda_shared_launch [0..<1] (\<lambda>blk. [0..<BLOCK_SIZE])
      (\<lambda>blk. replicate BLOCK_SIZE 0) BLOCK_SIZE 2 (ones_matrix 128 128) (replicate 128 1)
      3 (replicate 128 1) ! 5 = 259"
proof -
  have d: "128 div BLOCK_SIZE = 1" "128 mod BLOCK_SIZE = 0" by (simp_all add: BLOCK_SIZE_def)
  have "is_order (128 div BLOCK_SIZE) [0..<1]" unfolding d by (rule is_order_upt)
  moreover have "\<forall>blk<128 div BLOCK_SIZE. is_order BLOCK_SIZE [0..<BLOCK_SIZE]
      \<and> length (replicate BLOCK_SIZE (0::real)) = BLOCK_SIZE"
    by (simp add: is_order_upt)
  ultimately have "length (gemv_cuda_shared_launch [0..<1] (\<lambda>blk. [0..<BLOCK_SIZE])
      (\<lambda>blk. replicate BLOCK_SIZE 0) BLOCK_SIZE 2 (ones_matrix 128 128) (replicate 128 1)
      3 (replicate 128 1)) = 128
   \<and> (\<forall>i<128. gemv_cuda_shared_launch [0..<1] (\<lambda>blk. [0..<BLOCK_SIZE])
      (\<lambda>blk. replicate BLOCK_SIZE 0) BLOCK_SIZE 2 (ones_matrix 128 128) (replicate 128 1)
      3 (replicate 128 1) ! i
        = gemv_ref_row 2 (ones_matrix 128 128) (replicate 128 1) 3 (replicate 128 1) i 128)"
    by (intro tiled_kernel_matches_reference) (simp_all add: d ones_matrix_simps)
  then show ?thesis by (simp add: gemv_ref_row_ones)
qed



section \<open>Launch configuration and validator: properties\<close>

lemma num_blocks_cover:
  assumes "i < N"
  shows "i div BLOCK_SIZE < num_blocks N"
proof (cases "N mod BLOCK_SIZE = 0")
  case True
  then have "N div BLOCK_SIZE * BLOCK_SIZE = N" by auto
  with assms have "i div BLOCK_SIZE < N div BLOCK_SIZE"
    using BLOCK_SIZE_pos by (metis less_mult_imp_div_less)
  with True show ?thesis by (simp add: num_blocks_def)
next
  case False
  have "i div BLOCK_SIZE \<le> N div BLOCK_SIZE" using assms by (simp add: div_le_mono)
  with False show ?thesis by (simp add: num_blocks_def)
qed

lemma num_blocks_ceiling: "int (num_blocks N) = \<lceil>real N / real BLOCK_SIZE\<rceil>"
proof (cases "N mod BLOCK_SIZE = 0")
  case True
  then have "N div BLOCK_SIZE * BLOCK_SIZE = N" by auto
  then have "real N = real (N div BLOCK_SIZE) * real BLOCK_SIZE"
    by (metis of_nat_mult)
  then have "real N / real BLOCK_SIZE = real (N div BLOCK_SIZE)"
    using BLOCK_SIZE_pos by simp
  with True show ?thesis by (simp add: num_blocks_def)
next
  case False
  have pos: "0 < real BLOCK_SIZE" using BLOCK_SIZE_pos by simp
  have N: "real N = real (N div BLOCK_SIZE) * real BLOCK_SIZE + real (N mod BLOCK_SIZE)"
    by (metis div_mult_mod_eq of_nat_add of_nat_mult)
  have r: "0 < real (N mod BLOCK_SIZE)" "real (N mod BLOCK_SIZE) < real BLOCK_SIZE"
    using False BLOCK_SIZE_pos by simp_all
  have "real N / real BLOCK_SIZE
          = real (N div BLOCK_SIZE) + real (N mod BLOCK_SIZE) / real BLOCK_SIZE"
    using pos by (subst N) (simp add: add_divide_distrib)
  moreover have "0 < real (N mod BLOCK_SIZE) / real BLOCK_SIZE"
    "real (N mod BLOCK_SIZE) / real BLOCK_SIZE < 1"
    using r pos by simp_all
  ultimately have "\<lceil>real N / real BLOCK_SIZE\<rceil> = int (N div BLOCK_SIZE) + 1"
    by (intro ceiling_unique) simp_all
  with False show ?thesis by (simp add: num_blocks_def)
qed

lemma all_pairs_iff: "all_pairs P ps \<longleftrightarrow> (\<forall>i<length ps. P (ps ! i))"
proof (induction ps)
  case Nil
  show ?case by simp
next
  case (Cons p ps)
  show ?case by (simp add: Cons.IH All_less_Suc2)
qed






section \<open>Host functions: properties\<close>

lemma wf_env_order: "wf_env e \<Longrightarrow> is_order n (sched e n)"
  by (simp add: wf_env_def)

lemma thread_order_launch:
  assumes "wf_env e"
  shows "is_launch_order nb bsize (thread_order e nb bsize)"
proof -
  let ?f = "\<lambda>k. (k div bsize, k mod bsize)"
  from assms have ord: "distinct (sched e (nb * bsize))"
    "set (sched e (nb * bsize)) = {0..<nb * bsize}"
    using wf_env_order [of e "nb * bsize"] by (simp_all add: is_order_def)
  have "inj ?f"
    by (rule injI) (metis div_mult_mod_eq prod.inject)
  then have "inj_on ?f (set (sched e (nb * bsize)))" by (rule inj_on_subset) simp
  then have d: "distinct (thread_order e nb bsize)"
    using ord(1) by (simp add: thread_order_def distinct_map)
  have "?f ` {0..<nb * bsize} = {0..<nb} \<times> {0..<bsize}"
  proof (intro set_eqI iffI)
    fix p assume "p \<in> ?f ` {0..<nb * bsize}"
    then obtain k where k: "k < nb * bsize" "p = ?f k" by auto
    then have "0 < bsize" by (cases bsize) simp_all
    with k show "p \<in> {0..<nb} \<times> {0..<bsize}"
      by (simp add: less_mult_imp_div_less)
  next
    fix p assume p: "p \<in> {0..<nb} \<times> {0..<bsize}"
    obtain blk tid where [simp]: "p = (blk, tid)" by (cases p)
    from p have bt: "blk < nb" "tid < bsize" by simp_all
    have "blk * bsize + tid < blk * bsize + bsize" using bt by simp
    also have "\<dots> = Suc blk * bsize" by simp
    also have "\<dots> \<le> nb * bsize" using bt by (intro mult_le_mono1) simp
    finally have "blk * bsize + tid < nb * bsize" .
    moreover have "?f (blk * bsize + tid) = p" using bt by simp
    ultimately show "p \<in> ?f ` {0..<nb * bsize}"
      by (metis (no_types, lifting) atLeastLessThan_iff imageI zero_le)
  qed
  then have "set (thread_order e nb bsize) = set (launch_threads nb bsize)"
    by (simp add: thread_order_def launch_threads_def ord(2))
  with d show ?thesis by (simp add: is_launch_order_def)
qed

lemma num_blocks_covers: "N \<le> num_blocks N * BLOCK_SIZE"
proof (cases "N = 0")
  case True
  then show ?thesis by simp
next
  case False
  then have "(N - 1) div BLOCK_SIZE < num_blocks N" by (intro num_blocks_cover) simp
  then have "Suc ((N - 1) div BLOCK_SIZE) * BLOCK_SIZE \<le> num_blocks N * BLOCK_SIZE"
    by (intro mult_le_mono1) simp
  moreover have "N - 1 < Suc ((N - 1) div BLOCK_SIZE) * BLOCK_SIZE"
    using BLOCK_SIZE_pos dividend_less_times_div [of BLOCK_SIZE "N - 1"]
    by (simp add: mult.commute)
  ultimately show ?thesis by simp
qed

lemma gemv_cuda_launch_ref:
  assumes "is_launch_order nb bsize threads" "nrows A \<le> nb * bsize" "length y = nrows A"
  shows "gemv_cuda_launch threads bsize alpha A x beta y = gemv_ref alpha A x beta y"
proof (rule nth_equalityI)
  show "length (gemv_cuda_launch threads bsize alpha A x beta y)
          = length (gemv_ref alpha A x beta y)"
    by (simp add: gemv_cuda_launch_length gemv_ref_def assms(3))
next
  fix i assume "i < length (gemv_cuda_launch threads bsize alpha A x beta y)"
  then have i: "i < nrows A" by (simp add: gemv_cuda_launch_length assms(3))
  then show "gemv_cuda_launch threads bsize alpha A x beta y ! i = gemv_ref alpha A x beta y ! i"
    using assms
    by (simp add: gemv_cuda_launch_own [where nb = nb] gemv_ref_def gemv_ref_row_def row_dot_sum)
qed

lemma gemv_v1_rows_ref:
  assumes "is_order (nrows A) rows" "length y_ret = nrows A"
  shows "gemv_v1_rows rows alpha A x beta y y_ret = gemv_ref alpha A x beta y"
proof (rule nth_equalityI)
  show len: "length (gemv_v1_rows rows alpha A x beta y y_ret)
          = length (gemv_ref alpha A x beta y)"
    unfolding gemv_v1_rows_def by (subst fold_rows_length) (simp_all add: assms(2) gemv_ref_def)
  fix i assume "i < length (gemv_v1_rows rows alpha A x beta y y_ret)"
  then have i: "i < nrows A" by (simp add: len gemv_ref_def)
  have "fold (\<lambda>i y_ret. y_ret[i := alpha * row_dot A x i + beta * y ! i]) rows y_ret ! i
          = alpha * row_dot A x i + beta * y ! i"
    by (rule fold_rows_own [where R = "\<lambda>k. {k}"
          and G = "\<lambda>k j v. alpha * row_dot A x j + beta * y ! j" and k = i])
      (use assms i in \<open>auto simp: is_order_def\<close>)
  then show "gemv_v1_rows rows alpha A x beta y y_ret ! i = gemv_ref alpha A x beta y ! i"
    using i by (simp add: gemv_v1_rows_def gemv_ref_def gemv_ref_row_def row_dot_sum)
qed

lemma gemv_expr_ref:
  assumes "ncols A = length x" "length y = nrows A"
  shows "gemv_expr alpha A x beta y = Some (gemv_ref alpha A x beta y)"
proof -
  have "map (\<lambda>(u, v). u + v)
          (zip (map (\<lambda>u. alpha * u) (map (\<lambda>i. \<Sum>j<ncols A. mat_at A i j * x ! j) [0..<nrows A]))
               (map (\<lambda>v. beta * v) y))
        = gemv_ref alpha A x beta y"
    by (rule nth_equalityI) (simp_all add: assms gemv_ref_def gemv_ref_row_def)
  then show ?thesis
    by (simp add: gemv_expr_def matvec_def broadcast_def assms)
qed

lemma gemv_v1_result:
  assumes "wf_env e" "get_mat (host m) pA = Some A" "get_vec (host m) px = Some x"
    "get_vec (host m) py = Some y"
  shows "gemv_v1 e alpha pA px beta py m =
           Some (length (host m), m\<lparr>host := host m @ [Vec (gemv_ref alpha A x beta y)]\<rparr>)"
  using assms
  by (simp add: gemv_v1_def Let_def new_host_def np_empty_def gemv_v1_rows_ref wf_env_order)

lemma gemv_v2_result:
  assumes "get_mat (host m) pA = Some A" "get_vec (host m) px = Some x"
    "get_vec (host m) py = Some y" "ncols A = length x" "length y = nrows A"
  shows "gemv_v2 e alpha pA px beta py m =
           Some (length (host m), m\<lparr>host := host m @ [Vec (gemv_ref alpha A x beta y)]\<rparr>)"
  using assms by (simp add: gemv_v2_def new_host_def gemv_expr_ref)

lemma get_mat_D: "get_mat h p = Some A \<Longrightarrow> p < length h \<and> h ! p = Mat A"
  by (auto simp: get_mat_def split: if_splits ndarray.splits)

lemma get_vec_D: "get_vec h p = Some v \<Longrightarrow> p < length h \<and> h ! p = Vec v"
  by (auto simp: get_vec_def split: if_splits ndarray.splits)

lemma gemv_v3_result:
  assumes "wf_env e" "get_mat (host m) pA = Some A" "get_vec (host m) px = Some x"
    "get_vec (host m) py = Some y" "length y = nrows A"
  shows "gemv_v3 e alpha pA px beta py m =
           Some (length (host m),
                 m\<lparr>host := host m @ [Vec (gemv_ref alpha A x beta y)],
                   device := device m @ [Mat A, Vec x, Vec (gemv_ref alpha A x beta y)],
                   launches := launches m @ [(num_blocks (nrows A), BLOCK_SIZE)]\<rparr>)"
proof -
  note h = get_mat_D [OF assms(2)] get_vec_D [OF assms(3)] get_vec_D [OF assms(4)]
  have launch: "gemv_cuda_launch (thread_order e (num_blocks (nrows A)) BLOCK_SIZE) BLOCK_SIZE
                  alpha A x beta y = gemv_ref alpha A x beta y"
    by (rule gemv_cuda_launch_ref [where nb = "num_blocks (nrows A)"])
      (simp_all add: thread_order_launch assms num_blocks_covers)
  show ?thesis
    using h assms(2)
    by (simp add: gemv_v3_def to_device_def run_gemv_cuda_def copy_to_host_def new_host_def
        get_mat_def get_vec_def Let_def nth_append launch list_update_append)
qed

lemma ones_memory_args:
  "get_mat (host (ones_memory n)) 0 = Some (ones_matrix n n)"
  "get_vec (host (ones_memory n)) 1 = Some (replicate n 1)"
  "get_vec (host (ones_memory n)) 2 = Some (replicate n 1)"
  "length (host (ones_memory n)) = 3"
  by (simp_all add: ones_memory_def get_mat_def get_vec_def)

lemma wf_env0: "wf_env env0"
  by (simp add: wf_env_def env0_def is_order_def)

lemma wf_env1: "wf_env env1"
  by (simp add: wf_env_def env1_def is_order_def)

lemma gemv_ref_ones:
  "gemv_ref alpha (ones_matrix n m) (replicate m 1) beta (replicate n 1)
     = replicate n (alpha * real m + beta)"
  by (rule nth_equalityI) (simp_all add: gemv_ref_def ones_matrix_simps gemv_ref_row_ones)

lemma gemv_v1_frame:
  assumes "gemv_v1 e alpha pA px beta py m = Some (y_ret, m')"
  shows "(\<exists>res. host m' = host m @ [res]) \<and> y_ret = length (host m)
    \<and> pA < y_ret \<and> px < y_ret \<and> py < y_ret"
  using assms
  by (auto simp: gemv_v1_def Let_def new_host_def split: option.splits
      dest: get_mat_D get_vec_D)

lemma gemv_v2_frame:
  assumes "gemv_v2 e alpha pA px beta py m = Some (y_ret, m')"
  shows "(\<exists>res. host m' = host m @ [res]) \<and> y_ret = length (host m)
    \<and> pA < y_ret \<and> px < y_ret \<and> py < y_ret"
  using assms
  by (auto simp: gemv_v2_def Let_def new_host_def split: option.splits
      dest: get_mat_D get_vec_D)

lemma gemv_v3_frame:
  assumes "gemv_v3 e alpha pA px beta py m = Some (y_ret, m')"
  shows "(\<exists>res. host m' = host m @ [res]) \<and> y_ret = length (host m)
    \<and> pA < y_ret \<and> px < y_ret \<and> py < y_ret"
  using assms
  by (auto simp: gemv_v3_def Let_def new_host_def to_device_def run_gemv_cuda_def
      copy_to_host_def split: option.splits if_splits)

text \<open>
  Claim C8. When one of \<^verbatim>\<open>gemv_v1\<close>, \<^verbatim>\<open>gemv_v2\<close>, \<^verbatim>\<open>gemv_v3\<close> returns, every host
  array that existed before the call, the arguments \<open>A\<close>, \<open>x\<close> and \<open>y\<close> among them, holds
  what it held before, and the result is a new host array, different from the three
  arguments. (The GPU harness writes device buffers only, the CPU variants only the new
  array.)
\<close>

theorem gemv_variants_frame:
  assumes "gemv \<in> {gemv_v1, gemv_v2, gemv_v3}"
    and "gemv e alpha pA px beta py m = Some (y_ret, m')"
  shows "pA < length (host m) \<and> px < length (host m) \<and> py < length (host m)
    \<and> host m' ! pA = host m ! pA \<and> host m' ! px = host m ! px \<and> host m' ! py = host m ! py
    \<and> (\<forall>p<length (host m). host m' ! p = host m ! p)
    \<and> y_ret = length (host m) \<and> length (host m') = Suc (length (host m))"
proof -
  from assms have "(\<exists>res. host m' = host m @ [res]) \<and> y_ret = length (host m)
    \<and> pA < y_ret \<and> px < y_ret \<and> py < y_ret"
    using gemv_v1_frame [of e alpha pA px beta py m y_ret m']
      gemv_v2_frame [of e alpha pA px beta py m y_ret m']
      gemv_v3_frame [of e alpha pA px beta py m y_ret m'] by auto
  then show ?thesis by (auto simp: nth_append)
qed

text \<open>
  Witness for C8: the GPU harness on the heap of ones with \<open>n = 2\<close>, \<open>alpha = 2\<close>,
  \<open>beta = 3\<close>.
\<close>

theorem gemv_variants_frame_witness:
  "\<exists>y_ret m'. gemv_v3 env0 2 0 1 3 2 (ones_memory 2) = Some (y_ret, m')
     \<and> y_ret = 3 \<and> host m' ! 0 = Mat (ones_matrix 2 2) \<and> host m' ! 1 = Vec (replicate 2 1)
     \<and> host m' ! 2 = Vec (replicate 2 1) \<and> host m' ! 3 = Vec (replicate 2 7)"
proof -
  let ?m' = "(ones_memory 2)\<lparr>host := host (ones_memory 2) @ [Vec (replicate 2 7)],
                device := device (ones_memory 2)
                  @ [Mat (ones_matrix 2 2), Vec (replicate 2 1), Vec (replicate 2 7)],
                launches := launches (ones_memory 2) @ [(num_blocks 2, BLOCK_SIZE)]\<rparr>"
  have r: "gemv_v3 env0 2 0 1 3 2 (ones_memory 2) = Some (3, ?m')"
    using gemv_v3_result [OF wf_env0 ones_memory_args(1-3) [where n = 2], where alpha = 2 and beta = 3]
    by (simp add: ones_matrix_simps gemv_ref_ones ones_memory_args(4))
  have "gemv_v3 \<in> {gemv_v1, gemv_v2, gemv_v3}" by simp
  from gemv_variants_frame [OF this r]
  have keep: "host ?m' ! 0 = host (ones_memory 2) ! 0" "host ?m' ! 1 = host (ones_memory 2) ! 1"
    "host ?m' ! 2 = host (ones_memory 2) ! 2"
    by blast+
  have old: "host (ones_memory 2) ! 0 = Mat (ones_matrix 2 2)"
    "host (ones_memory 2) ! 1 = Vec (replicate 2 1)" "host (ones_memory 2) ! 2 = Vec (replicate 2 1)"
    by (simp_all add: ones_memory_def)
  have new: "host ?m' ! 3 = Vec (replicate 2 7)" by (simp add: ones_memory_def)
  show ?thesis
    using r keep [unfolded old] new by blast
qed

lemma shared_launch_ref:
  assumes blocks: "is_order nb blocks" "nrows A \<le> nb * BLOCK_SIZE"
    and threads: "\<forall>blk<nb. is_order BLOCK_SIZE (threads blk) \<and> length (lx0 blk) = BLOCK_SIZE"
    and full: "nrows A mod BLOCK_SIZE = 0 \<or> ncols A < BLOCK_SIZE"
  shows "gemv_cuda_shared_launch blocks threads lx0 BLOCK_SIZE alpha A x beta y =
           map (\<lambda>i. if i < nrows A
                    then gemv_ref_row alpha A x beta y i (ncols A div BLOCK_SIZE * BLOCK_SIZE)
                    else y ! i) [0..<length y]"
proof (rule nth_equalityI)
  show "length (gemv_cuda_shared_launch blocks threads lx0 BLOCK_SIZE alpha A x beta y) =
          length (map (\<lambda>i. if i < nrows A
                    then gemv_ref_row alpha A x beta y i (ncols A div BLOCK_SIZE * BLOCK_SIZE)
                    else y ! i) [0..<length y])"
    by (simp add: shared_launch_fold_length)
next
  fix i assume "i < length (gemv_cuda_shared_launch blocks threads lx0 BLOCK_SIZE alpha A x beta y)"
  then have iy: "i < length y" by (simp add: shared_launch_fold_length)
  have ords: "\<forall>blk\<in>set blocks. is_order BLOCK_SIZE (threads blk)"
    "\<forall>blk\<in>set blocks. is_order BLOCK_SIZE (threads blk) \<and> length (lx0 blk) = BLOCK_SIZE"
    "distinct blocks"
    using blocks(1) threads by (auto simp: is_order_def)
  show "gemv_cuda_shared_launch blocks threads lx0 BLOCK_SIZE alpha A x beta y ! i =
          map (\<lambda>i. if i < nrows A
                    then gemv_ref_row alpha A x beta y i (ncols A div BLOCK_SIZE * BLOCK_SIZE)
                    else y ! i) [0..<length y] ! i"
  proof (cases "i < nrows A")
    case True
    then have "i < nb * BLOCK_SIZE" using blocks(2) by simp
    then have "i div BLOCK_SIZE < nb" using BLOCK_SIZE_pos by (simp add: less_mult_imp_div_less)
    then have blk: "i div BLOCK_SIZE \<in> set blocks" using blocks(1) by (simp add: is_order_def)
    have "tiled_row alpha A x beta y (lx0 (i div BLOCK_SIZE)) i =
            gemv_ref_row alpha A x beta y i (ncols A div BLOCK_SIZE * BLOCK_SIZE)"
    proof (cases "ncols A < BLOCK_SIZE")
      case True
      then show ?thesis by (rule tiled_row_no_tile)
    next
      case False
      with full have m: "nrows A div BLOCK_SIZE * BLOCK_SIZE = nrows A" by auto
      with \<open>i < nrows A\<close> have "i div BLOCK_SIZE < nrows A div BLOCK_SIZE"
        using BLOCK_SIZE_pos by (metis less_mult_imp_div_less)
      then have "Suc (i div BLOCK_SIZE) * BLOCK_SIZE \<le> nrows A div BLOCK_SIZE * BLOCK_SIZE"
        by (intro mult_le_mono1) simp
      then show ?thesis using m by (intro tiled_row_full_group) simp
    qed
    then show ?thesis
      using True iy shared_launch_own [OF ords(3) ords(2) blk True iy] by simp
  next
    case False
    then show ?thesis
      using iy shared_launch_other [OF ords(1), of i A] by simp
  qed
qed

text \<open>
  Where the variants are deterministic. On well-shaped arguments each of \<^verbatim>\<open>gemv_v1\<close>,
  \<^verbatim>\<open>gemv_v2\<close>, \<^verbatim>\<open>gemv_v3\<close> returns, and returns the same result and memory, in any two
  environments. The tiled kernel gives the same output for any two orders of blocks and
  threads and any two initial contents of the shared arrays when \<open>N\<close> is a multiple of
  \<open>BLOCK_SIZE\<close>, every block being full then.
\<close>

lemma gemv_variants_deterministic:
  assumes envs: "wf_env e1" "wf_env e2"
    and args: "get_mat (host m) pA = Some A" "get_vec (host m) px = Some x"
      "get_vec (host m) py = Some y"
    and shape: "length (elems A) = nrows A * ncols A" "ncols A = length x" "length y = nrows A"
  shows "gemv_v1 e1 alpha pA px beta py m = gemv_v1 e2 alpha pA px beta py m
    \<and> gemv_v2 e1 alpha pA px beta py m = gemv_v2 e2 alpha pA px beta py m
    \<and> gemv_v3 e1 alpha pA px beta py m = gemv_v3 e2 alpha pA px beta py m
    \<and> gemv_v1 e1 alpha pA px beta py m \<noteq> None
    \<and> gemv_v2 e1 alpha pA px beta py m \<noteq> None
    \<and> gemv_v3 e1 alpha pA px beta py m \<noteq> None
    \<and> (nrows A mod BLOCK_SIZE = 0 \<and> nrows A \<le> nb * BLOCK_SIZE
         \<and> is_order nb blocks1 \<and> is_order nb blocks2
         \<and> (\<forall>blk<nb. is_order BLOCK_SIZE (threads1 blk) \<and> length (lx1 blk) = BLOCK_SIZE
                     \<and> is_order BLOCK_SIZE (threads2 blk) \<and> length (lx2 blk) = BLOCK_SIZE)
       \<longrightarrow> gemv_cuda_shared_launch blocks1 threads1 lx1 BLOCK_SIZE alpha A x beta y
           = gemv_cuda_shared_launch blocks2 threads2 lx2 BLOCK_SIZE alpha A x beta y)"
proof (intro conjI impI)
  show "gemv_v1 e1 alpha pA px beta py m = gemv_v1 e2 alpha pA px beta py m"
    by (simp add: gemv_v1_result [OF envs(1) args] gemv_v1_result [OF envs(2) args])
  show "gemv_v2 e1 alpha pA px beta py m = gemv_v2 e2 alpha pA px beta py m"
    by (simp add: gemv_v2_result [OF args shape(2,3)])
  show "gemv_v3 e1 alpha pA px beta py m = gemv_v3 e2 alpha pA px beta py m"
    by (simp add: gemv_v3_result [OF envs(1) args shape(3)]
        gemv_v3_result [OF envs(2) args shape(3)])
  show "gemv_v1 e1 alpha pA px beta py m \<noteq> None"
    by (simp add: gemv_v1_result [OF envs(1) args])
  show "gemv_v2 e1 alpha pA px beta py m \<noteq> None"
    by (simp add: gemv_v2_result [OF args shape(2,3)])
  show "gemv_v3 e1 alpha pA px beta py m \<noteq> None"
    by (simp add: gemv_v3_result [OF envs(1) args shape(3)])
next
  assume h: "nrows A mod BLOCK_SIZE = 0 \<and> nrows A \<le> nb * BLOCK_SIZE
         \<and> is_order nb blocks1 \<and> is_order nb blocks2
         \<and> (\<forall>blk<nb. is_order BLOCK_SIZE (threads1 blk) \<and> length (lx1 blk) = BLOCK_SIZE
                     \<and> is_order BLOCK_SIZE (threads2 blk) \<and> length (lx2 blk) = BLOCK_SIZE)"
  then have "gemv_cuda_shared_launch blocks1 threads1 lx1 BLOCK_SIZE alpha A x beta y =
           map (\<lambda>i. if i < nrows A
                    then gemv_ref_row alpha A x beta y i (ncols A div BLOCK_SIZE * BLOCK_SIZE)
                    else y ! i) [0..<length y]"
    by (intro shared_launch_ref [where nb = nb]) simp_all
  moreover from h have "gemv_cuda_shared_launch blocks2 threads2 lx2 BLOCK_SIZE alpha A x beta y =
           map (\<lambda>i. if i < nrows A
                    then gemv_ref_row alpha A x beta y i (ncols A div BLOCK_SIZE * BLOCK_SIZE)
                    else y ! i) [0..<length y]"
    by (intro shared_launch_ref [where nb = nb]) simp_all
  ultimately show "gemv_cuda_shared_launch blocks1 threads1 lx1 BLOCK_SIZE alpha A x beta y
           = gemv_cuda_shared_launch blocks2 threads2 lx2 BLOCK_SIZE alpha A x beta y"
    by simp
qed

lemma dispatch_module_globals:
  "map_of module_globals (''gemv_'' @ version) = Some k \<longleftrightarrow>
     (version = ''v1'' \<and> k = Kernel gemv_v1) \<or> (version = ''v2'' \<and> k = Kernel gemv_v2)
     \<or> (version = ''v3'' \<and> k = Kernel gemv_v3)"
  by (auto simp: module_globals_def)






lemma num_blocks_nat_ceiling: "num_blocks N = nat \<lceil>real N / real BLOCK_SIZE\<rceil>"
  using num_blocks_ceiling [of N] by simp

text \<open>
  Claim C6. On a matrix with \<open>N > 0\<close> rows the GPU harness launches its kernel once, on
  \<open>\<lceil>N / BLOCK_SIZE\<rceil>\<close> blocks of \<open>BLOCK_SIZE\<close> threads, as the log of launches shows. This
  number is at least \<open>1\<close>, every row \<open>i < N\<close> is the global index of a thread of that
  launch, and the array the harness returns has every row computed.
\<close>

theorem gemv_v3_launch_covers_rows:
  assumes "wf_env e" "get_mat (host m) pA = Some A" "get_vec (host m) px = Some x"
    "get_vec (host m) py = Some y" "length y = nrows A" "0 < nrows A"
  shows "(\<exists>m'. gemv_v3 e alpha pA px beta py m = Some (length (host m), m')
            \<and> launches m' = launches m @ [(nat \<lceil>real (nrows A) / real BLOCK_SIZE\<rceil>, BLOCK_SIZE)]
            \<and> host m' ! length (host m) = Vec (gemv_ref alpha A x beta y))
    \<and> 1 \<le> nat \<lceil>real (nrows A) / real BLOCK_SIZE\<rceil>
    \<and> (\<forall>i<nrows A. \<exists>blk<nat \<lceil>real (nrows A) / real BLOCK_SIZE\<rceil>. \<exists>tid<BLOCK_SIZE.
           grid BLOCK_SIZE blk tid = i
           \<and> (blk, tid) \<in> set (thread_order e (nat \<lceil>real (nrows A) / real BLOCK_SIZE\<rceil>)
                                BLOCK_SIZE))"
proof (intro conjI allI impI)
  show "\<exists>m'. gemv_v3 e alpha pA px beta py m = Some (length (host m), m')
            \<and> launches m' = launches m @ [(nat \<lceil>real (nrows A) / real BLOCK_SIZE\<rceil>, BLOCK_SIZE)]
            \<and> host m' ! length (host m) = Vec (gemv_ref alpha A x beta y)"
    by (simp add: gemv_v3_result [OF assms(1-5)] num_blocks_nat_ceiling)
  show "1 \<le> nat \<lceil>real (nrows A) / real BLOCK_SIZE\<rceil>"
    using num_blocks_cover [OF assms(6)] by (simp add: num_blocks_nat_ceiling [symmetric])
next
  fix i assume "i < nrows A"
  then have blk: "i div BLOCK_SIZE < nat \<lceil>real (nrows A) / real BLOCK_SIZE\<rceil>"
    using num_blocks_cover [of i "nrows A"] by (simp add: num_blocks_nat_ceiling)
  have tid: "i mod BLOCK_SIZE < BLOCK_SIZE" using BLOCK_SIZE_pos by simp
  have "(i div BLOCK_SIZE, i mod BLOCK_SIZE)
          \<in> set (thread_order e (nat \<lceil>real (nrows A) / real BLOCK_SIZE\<rceil>) BLOCK_SIZE)"
    using launch_order_mem [OF thread_order_launch [OF assms(1)]] blk tid by simp
  with blk tid grid_div_mod [of BLOCK_SIZE i]
  show "\<exists>blk<nat \<lceil>real (nrows A) / real BLOCK_SIZE\<rceil>. \<exists>tid<BLOCK_SIZE.
           grid BLOCK_SIZE blk tid = i
           \<and> (blk, tid) \<in> set (thread_order e (nat \<lceil>real (nrows A) / real BLOCK_SIZE\<rceil>)
                                BLOCK_SIZE)"
    by blast
qed

lemma ceiling_examples:
  "nat \<lceil>1 / real BLOCK_SIZE\<rceil> = Suc 0" "nat \<lceil>129 / real BLOCK_SIZE\<rceil> = 2"
  using num_blocks_nat_ceiling [of 1, symmetric] num_blocks_nat_ceiling [of 129, symmetric]
  by (simp_all add: num_blocks_def BLOCK_SIZE_def)

text \<open>
  Witness for C6: \<open>N = 129\<close> launches two blocks and \<open>N = 1\<close> launches one, not none.
\<close>

theorem gemv_v3_launch_covers_rows_witness:
  "(\<exists>m'. gemv_v3 env0 2 0 1 3 2 (ones_memory 129) = Some (3, m')
        \<and> launches m' = [(2, BLOCK_SIZE)] \<and> host m' ! 3 = Vec (replicate 129 261))
   \<and> (\<exists>m'. gemv_v3 env0 2 0 1 3 2 (ones_memory 1) = Some (3, m')
        \<and> launches m' = [(1, BLOCK_SIZE)] \<and> host m' ! 3 = Vec (replicate 1 5))"
proof -
  have s: "length (replicate n (1::real)) = nrows (ones_matrix n n)" for n
    by (simp add: ones_matrix_simps)
  have l: "launches (ones_memory n) = []" for n by (simp add: ones_memory_def)
  have "0 < nrows (ones_matrix 129 129)" by (simp add: ones_matrix_simps)
  from gemv_v3_launch_covers_rows [OF wf_env0 ones_memory_args(1-3) s this,
      where alpha = 2 and beta = 3]
  have a: "\<exists>m'. gemv_v3 env0 2 0 1 3 2 (ones_memory 129) = Some (3, m')
        \<and> launches m' = [(2, BLOCK_SIZE)] \<and> host m' ! 3 = Vec (replicate 129 261)"
    by (simp add: ones_matrix_simps ones_memory_args(4) l ceiling_examples gemv_ref_ones)
  have "0 < nrows (ones_matrix 1 1)" by (simp add: ones_matrix_simps)
  from gemv_v3_launch_covers_rows [OF wf_env0 ones_memory_args(1-3) s this,
      where alpha = 2 and beta = 3]
  have b: "\<exists>m'. gemv_v3 env0 2 0 1 3 2 (ones_memory 1) = Some (3, m')
        \<and> launches m' = [(1, BLOCK_SIZE)] \<and> host m' ! 3 = Vec (replicate 1 5)"
    using gemv_ref_ones [of 2 1 1 3]
    by (simp add: ones_matrix_simps ones_memory_args(4) l ceiling_examples)
  from a b show ?thesis by simp
qed

section \<open>Main program: properties\<close>

lemma ascii_int_examples:
  "ascii_int ''2'' = Some 2" "ascii_int ''0'' = Some 0" "ascii_int '' -3'' = Some (- 3)"
  "ascii_int ''1_000'' = Some 1000" "ascii_int ''two'' = None" "ascii_int ''1.5'' = None"
  "ascii_int ''4611686018427387904'' = Some 4611686018427387904"
  by (simp_all add: ascii_int_def strip_def is_space_def ascii_nat_def is_digit_def
      digit_val_def)

lemma builtin_int_env0: "builtin_int env0 = ascii_int"
  by (simp add: env0_def)

lemma found_of_None_iff:
  "found_of kern e N = None \<longleftrightarrow>
     \<not> operands_fit e N \<or> runtime_fault e
     \<or> (\<exists>m0. initial_memory e N = Some m0
           \<and> (call kern e (2 / 10) 0 1 1 2 m0 = None
               \<or> (\<exists>y m1. call kern e (2 / 10) 0 1 1 2 m0 = Some (y, m1)
                           \<and> get_vec (host m1) y = None)))"
  by (auto simp: found_of_def initial_memory_def split: option.splits)

text \<open>
  Claim C5, amended. The exit code is \<open>1\<close> exactly when there are fewer than two
  arguments, or the dimension is not an integer, or it is not positive, or no kernel has
  the version's name, or the computed result fails validation, or an exception that
  nothing catches ends the run; otherwise it is \<open>0\<close>. Such an exception ends the run
  exactly when the arguments are accepted and then the operands cannot be allocated, the
  runtime or the kernel raises, or the reference or the validator raises. When validation
  fails, the program has printed the elapsed time, the error line, the found vector and
  the expected vector, in this order. The module globals are a parameter, so that the
  statement covers a kernel whose result does not validate.
\<close>

theorem main_exit_codes:
  "(exit_code (main_with g e argv) = 1 \<longleftrightarrow>
      length argv < 3 \<or> builtin_int e (argv ! 1) = None
      \<or> (\<exists>N. builtin_int e (argv ! 1) = Some N \<and> N \<le> 0)
      \<or> map_of g (''gemv_'' @ argv ! 2) = None
      \<or> (\<exists>N kern y m1 y_ref. 3 \<le> length argv \<and> builtin_int e (argv ! 1) = Some N \<and> 0 < N
            \<and> map_of g (''gemv_'' @ argv ! 2) = Some kern
            \<and> found_of kern e (nat N) = Some (y, m1) \<and> expected_of m1 = Some y_ref
            \<and> validate (map Fin y) (map Fin y_ref) = Some False)
      \<or> Traceback \<in> set (printed (main_with g e argv)))
   \<and> (exit_code (main_with g e argv) \<noteq> 1 \<longrightarrow> exit_code (main_with g e argv) = 0)
   \<and> (Traceback \<in> set (printed (main_with g e argv)) \<longleftrightarrow>
        3 \<le> length argv
        \<and> (\<exists>N kern. builtin_int e (argv ! 1) = Some N \<and> 0 < N
              \<and> map_of g (''gemv_'' @ argv ! 2) = Some kern
              \<and> (found_of kern e (nat N) = None
                  \<or> (\<exists>y m1. found_of kern e (nat N) = Some (y, m1)
                        \<and> (expected_of m1 = None
                            \<or> (\<exists>y_ref. expected_of m1 = Some y_ref
                                  \<and> validate (map Fin y) (map Fin y_ref) = None))))))
   \<and> (\<forall>N kern y m1 y_ref. 3 \<le> length argv \<and> builtin_int e (argv ! 1) = Some N \<and> 0 < N
           \<and> map_of g (''gemv_'' @ argv ! 2) = Some kern
           \<and> found_of kern e (nat N) = Some (y, m1) \<and> expected_of m1 = Some y_ref
           \<and> validate (map Fin y) (map Fin y_ref) = Some False
         \<longrightarrow> printed (main_with g e argv) =
               [Elapsed_time (clock e 1 - clock e 0), Err_not_validated, Found y, Expected y_ref])"
  by (auto simp: main_with_def elapsed_time_timed_region
      split: option.splits bool.splits if_splits prod.splits)

lemma validate_refl: "validate (map Fin v) (map Fin v) = Some True"
  by (simp add: validate_def allclose_def broadcast_def all_pairs_iff isclose_def f_eq_def)

lemma initial_memory_args:
  assumes "operands_fit e N"
  shows "\<exists>m0 A x y. initial_memory e N = Some m0
     \<and> get_mat (host m0) 0 = Some A \<and> get_vec (host m0) 1 = Some x
     \<and> get_vec (host m0) 2 = Some y
     \<and> ncols A = length x \<and> length y = nrows A
     \<and> host m0 = [Mat A, Vec x, Vec y]"
  using assms by (simp add: initial_memory_def get_mat_def get_vec_def)

lemma module_kernel_validates:
  assumes "wf_env e" "kern \<in> {Kernel gemv_v1, Kernel gemv_v2, Kernel gemv_v3}"
    "operands_fit e N" "\<not> runtime_fault e"
  shows "\<exists>y m1. found_of kern e N = Some (y, m1) \<and> expected_of m1 = Some y"
proof -
  obtain m0 A x y where a: "get_mat (host m0) 0 = Some A"
    "get_vec (host m0) 1 = Some x" "get_vec (host m0) 2 = Some y"
    "ncols A = length x" "length y = nrows A"
    "host m0 = [Mat A, Vec x, Vec y]" and m0: "initial_memory e N = Some m0"
    using initial_memory_args [OF assms(3)] by blast
  let ?r = "gemv_ref (2 / 10) A x 1 y"
  have "\<exists>m1. call kern e (2 / 10) 0 1 1 2 m0 = Some (3, m1)
          \<and> host m1 = [Mat A, Vec x, Vec y, Vec ?r]"
    using assms(2) gemv_v1_result [OF assms(1) a(1-3), of "2 / 10" 1]
      gemv_v2_result [OF a(1-5), of e "2 / 10" 1]
      gemv_v3_result [OF assms(1) a(1-3,5), of "2 / 10" 1]
    by (auto simp: call_def a(6))
  then obtain m1 where m1: "call kern e (2 / 10) 0 1 1 2 m0 = Some (3, m1)"
    "host m1 = [Mat A, Vec x, Vec y, Vec ?r]" by blast
  have "found_of kern e N = Some (?r, m1)"
    using m1 m0 assms(4) by (simp add: found_of_def get_vec_def)
  moreover have "expected_of m1 = Some ?r"
    using gemv_expr_ref [OF a(4,5), of "2 / 10" 1] m1(2)
    by (simp add: expected_of_def get_mat_def get_vec_def)
  ultimately show ?thesis by blast
qed

lemma main_validates:
  assumes "wf_env e" "\<not> runtime_fault e" "3 \<le> length argv"
    "builtin_int e (argv ! 1) = Some N" "0 < N" "operands_fit e (nat N)"
    "argv ! 2 \<in> {''v1'', ''v2'', ''v3''}"
  shows "main e argv = \<lparr>exit_code = 0, printed = [Elapsed_time (clock e 1 - clock e 0)]\<rparr>"
proof -
  from assms(7) obtain kern where k: "map_of module_globals (''gemv_'' @ argv ! 2) = Some kern"
    "kern \<in> {Kernel gemv_v1, Kernel gemv_v2, Kernel gemv_v3}"
    using dispatch_module_globals [of "argv ! 2"] by auto
  from module_kernel_validates [OF assms(1) k(2) assms(6,2)]
  obtain y m1 where f: "found_of kern e (nat N) = Some (y, m1)" "expected_of m1 = Some y"
    by blast
  show ?thesis
    using assms(3-5) k(1) f
    by (simp add: main_def main_with_def elapsed_time_timed_region validate_refl)
qed

lemma replicate_2: "replicate 2 v = [v, v]"
  by (simp add: numeral_2_eq_2)

lemma clock_env0: "clock env0 k = real k"
  by (simp add: env0_def)

lemma env0_runs: "\<not> runtime_fault env0" "operands_fit env0 2"
  by (simp_all add: env0_def operands_fit_def)

lemma initial_memory_env0:
  "operands_fit env0 n \<Longrightarrow> initial_memory env0 n = Some (ones_memory n)"
  by (simp add: initial_memory_def env0_def ones_memory_def ones_matrix_def map_replicate_const)

lemma found_of_perturbed:
  "found_of (Kernel gemv_perturbed) env0 2 =
     Some ([12 / 5, 7 / 5],
           (ones_memory 2)\<lparr>host := host (ones_memory 2) @ [Vec [12 / 5, 7 / 5]]\<rparr>)"
proof -
  have "gemv_v2 env0 (2 / 10) 0 1 1 2 (ones_memory 2) =
      Some (3, (ones_memory 2)\<lparr>host := host (ones_memory 2) @ [Vec (replicate 2 (7 / 5))]\<rparr>)"
    using gemv_v2_result [OF ones_memory_args(1-3), of 2 env0 "2 / 10" 1]
    by (simp add: ones_matrix_simps gemv_ref_ones ones_memory_args(4))
  then show ?thesis
    by (simp add: found_of_def call_def gemv_perturbed_def initial_memory_env0 env0_runs
        get_vec_def ones_memory_args(4) nth_append list_update_append replicate_2)
qed

lemma expected_of_perturbed:
  "expected_of ((ones_memory 2)\<lparr>host := host (ones_memory 2) @ [Vec v]\<rparr>) = Some [7 / 5, 7 / 5]"
proof -
  have "gemv_expr (2 / 10) (ones_matrix 2 2) (replicate 2 1) 1 (replicate 2 1)
          = Some (replicate 2 (7 / 5))"
    using gemv_expr_ref [of "ones_matrix 2 2" "replicate 2 1" "replicate 2 1" "2 / 10" 1]
    by (simp add: ones_matrix_simps gemv_ref_ones)
  then show ?thesis
    by (simp add: expected_of_def ones_memory_def get_mat_def get_vec_def replicate_2)
qed

lemma validate_perturbed:
  "validate (map Fin [12 / 5, 7 / 5]) (map Fin [7 / 5, 7 / 5]) = Some False"
  by (simp add: validate_def allclose_def broadcast_def isclose_def within_tol_def f_eq_def
      rtol_default_def atol_default_def)

lemma main_perturbed:
  "main_with perturbed_globals env0 [''demo.py'', ''2'', ''perturbed''] =
     \<lparr>exit_code = 1,
      printed = [Elapsed_time 1, Err_not_validated, Found [12 / 5, 7 / 5],
                 Expected [7 / 5, 7 / 5]]\<rparr>"
proof -
  have k: "map_of perturbed_globals (''gemv_'' @ ''perturbed'') = Some (Kernel gemv_perturbed)"
    by (simp add: perturbed_globals_def module_globals_def)
  show ?thesis
    using k validate_perturbed
    by (simp add: main_with_def builtin_int_env0 ascii_int_examples found_of_perturbed
        expected_of_perturbed elapsed_time_timed_region clock_env0)
qed

text \<open>
  Claim C5 as stated fails. With the dimension \<open>2 ^ 62\<close> and the version \<^verbatim>\<open>v1\<close> there are
  two arguments, the dimension is a positive integer and the kernel exists; the matrix of
  \<open>2 ^ 124\<close> cells cannot be allocated, NumPy raises, no result is computed or validated,
  and the program ends with the traceback and exit code \<open>1\<close>.
\<close>

theorem main_uncaught_exception_counterexample:
  "exit_code (main env0 [''demo.py'', ''4611686018427387904'', ''v1'']) = 1
   \<and> printed (main env0 [''demo.py'', ''4611686018427387904'', ''v1'']) = [Traceback]
   \<and> \<not> length [''demo.py'', ''4611686018427387904'', ''v1''] < 3
   \<and> builtin_int env0 ([''demo.py'', ''4611686018427387904'', ''v1''] ! 1)
       = Some 4611686018427387904
   \<and> map_of module_globals (''gemv_'' @ [''demo.py'', ''4611686018427387904'', ''v1''] ! 2)
       = Some (Kernel gemv_v1)
   \<and> found_of (Kernel gemv_v1) env0 (nat 4611686018427387904) = None"
proof -
  have f: "found_of (Kernel gemv_v1) env0 (nat 4611686018427387904) = None"
    by (simp add: found_of_def initial_memory_def operands_fit_def)
  have k: "map_of module_globals (''gemv_'' @ ''v1'') = Some (Kernel gemv_v1)"
    by (simp add: module_globals_def)
  show ?thesis
    using f k
    by (simp add: main_def main_with_def builtin_int_env0 ascii_int_examples)
qed

text \<open>
  Witness for C5, amended: with the perturbed kernel the run prints both vectors and exits
  with \<open>1\<close>; the program itself exits with \<open>0\<close> on \<^verbatim>\<open>2 v3\<close> and with \<open>1\<close> on a dimension
  \<open>0\<close>, an unknown version, a dimension that is not a number, a missing argument, and
  a runtime that fails.
\<close>

theorem main_exit_codes_witness:
  "exit_code (main_with perturbed_globals env0 [''demo.py'', ''2'', ''perturbed'']) = 1
   \<and> printed (main_with perturbed_globals env0 [''demo.py'', ''2'', ''perturbed'']) =
       [Elapsed_time 1, Err_not_validated, Found [12 / 5, 7 / 5], Expected [7 / 5, 7 / 5]]
   \<and> exit_code (main env0 [''demo.py'', ''2'', ''v3'']) = 0
   \<and> exit_code (main env0 [''demo.py'', ''0'', ''v3'']) = 1
   \<and> exit_code (main env0 [''demo.py'', ''2'', ''v4'']) = 1
   \<and> exit_code (main env0 [''demo.py'', ''two'', ''v3'']) = 1
   \<and> exit_code (main env0 [''demo.py'', ''2'']) = 1
   \<and> exit_code (main (env0\<lparr>runtime_fault := True\<rparr>) [''demo.py'', ''2'', ''v3'']) = 1"
proof -
  let ?argv = "[''demo.py'', ''2'', ''perturbed'']"
  have k: "map_of perturbed_globals (''gemv_'' @ ?argv ! 2) = Some (Kernel gemv_perturbed)"
    by (simp add: perturbed_globals_def module_globals_def)
  have fails: "3 \<le> length ?argv \<and> builtin_int env0 (?argv ! 1) = Some 2 \<and> (0::int) < 2
           \<and> map_of perturbed_globals (''gemv_'' @ ?argv ! 2) = Some (Kernel gemv_perturbed)
           \<and> found_of (Kernel gemv_perturbed) env0 (nat 2) = Some ([12 / 5, 7 / 5],
                 (ones_memory 2)\<lparr>host := host (ones_memory 2) @ [Vec [12 / 5, 7 / 5]]\<rparr>)
           \<and> expected_of ((ones_memory 2)\<lparr>host := host (ones_memory 2) @ [Vec [12 / 5, 7 / 5]]\<rparr>)
               = Some [7 / 5, 7 / 5]
           \<and> validate (map Fin [12 / 5, 7 / 5]) (map Fin [7 / 5, 7 / 5]) = Some False"
    using k validate_perturbed
    by (simp add: builtin_int_env0 ascii_int_examples found_of_perturbed expected_of_perturbed)
  note th = main_exit_codes [of perturbed_globals env0 ?argv]
  from th fails have p: "printed (main_with perturbed_globals env0 ?argv) =
       [Elapsed_time (clock env0 1 - clock env0 0), Err_not_validated,
        Found [12 / 5, 7 / 5], Expected [7 / 5, 7 / 5]]"
    by blast
  from th fails have e: "exit_code (main_with perturbed_globals env0 ?argv) = 1"
    by blast
  have ok: "exit_code (main env0 [''demo.py'', ''2'', ''v3'']) = 0"
    using main_validates [OF wf_env0 env0_runs(1), of "[''demo.py'', ''2'', ''v3'']" 2]
      env0_runs(2)
    by (simp add: builtin_int_env0 ascii_int_examples)
  have errs: "exit_code (main env0 [''demo.py'', ''0'', ''v3'']) = 1"
    "exit_code (main env0 [''demo.py'', ''2'', ''v4'']) = 1"
    "exit_code (main env0 [''demo.py'', ''two'', ''v3'']) = 1"
    "exit_code (main env0 [''demo.py'', ''2'']) = 1"
    by (simp_all add: main_def main_with_def builtin_int_env0 ascii_int_examples
        module_globals_def)
  have fault: "exit_code (main (env0\<lparr>runtime_fault := True\<rparr>) [''demo.py'', ''2'', ''v3'']) = 1"
    by (simp add: main_def main_with_def builtin_int_env0 ascii_int_examples module_globals_def
        found_of_def env0_def split: option.splits)
  show ?thesis using p e ok errs fault by (simp add: clock_env0)
qed

end
